theory Spec2Isabelle
  imports Main "HOL-Library.Word"
begin

section \<open>chronos: command line options\<close>

text \<open>
  The model follows \<^verbatim>\<open>chronos.cpp\<close>. Wide strings are modelled as \<^typ>\<open>string\<close>;
  text written to a stream is a string in which \<^verbatim>\<open>std::endl\<close> is the line feed.
\<close>

definition endl :: string where
  "endl = [CHR 0x0A]"

definition tab :: string where
  "tab = [CHR 0x09]"

text \<open>\<^verbatim>\<open>struct CliParams\<close>: the discovered command line options.\<close>

record CliParams =
  verbose :: bool
  outputFileName :: string
  cmdLine :: string

text \<open>\<^verbatim>\<open>w.find(p) == 0\<close>: the word \<open>w\<close> begins with \<open>p\<close>.\<close>

definition starts_with :: "string \<Rightarrow> string \<Rightarrow> bool" where
  "starts_with w p = (take (length p) w = p)"

text \<open>
  The local variables of \<^verbatim>\<open>ParseArgv\<close> that its \<^verbatim>\<open>while\<close> loop reads and writes.
  \<open>arguments\<close> is the vector built from \<^verbatim>\<open>argv + 1\<close>; the loop overwrites the current
  entry when it strips an option prefix (\<^verbatim>\<open>curWord\<close> is a reference into the vector).
  \<open>result_verbose\<close> is the field \<^verbatim>\<open>result.verbose\<close> of the caller's structure.
\<close>

record ParseArgv_locals =
  arguments :: "string list"
  argNo :: nat
  consumeNextPositionalArgument :: bool
  posArg :: string
  result_verbose :: bool

text \<open>
  How the loop is left: by \<^verbatim>\<open>return false\<close> (with the text written to the error stream),
  or by \<^verbatim>\<open>break\<close> or a false loop condition.
\<close>

datatype loop_exit =
  ReturnFalse string ParseArgv_locals
| LoopEnd ParseArgv_locals

function ParseArgv_loop :: "ParseArgv_locals \<Rightarrow> loop_exit" where
  "ParseArgv_loop s =
    (if argNo s < length (arguments s) then
       (let curWord = arguments s ! argNo s in
        if consumeNextPositionalArgument s then
          ParseArgv_loop (s\<lparr>posArg := curWord, consumeNextPositionalArgument := False,
                            argNo := argNo s + 1\<rparr>)
        else if curWord = ''--'' then LoopEnd (s\<lparr>argNo := argNo s + 1\<rparr>)
        else if starts_with curWord ''-o'' then
          (let w = drop 2 curWord; s1 = s\<lparr>arguments := (arguments s)[argNo s := w]\<rparr> in
           if w = [] then
             ParseArgv_loop (s1\<lparr>consumeNextPositionalArgument := True, argNo := argNo s + 1\<rparr>)
           else ParseArgv_loop (s1\<lparr>posArg := w, argNo := argNo s + 1\<rparr>))
        else if starts_with curWord ''--output'' then
          (let w = drop 8 curWord; s1 = s\<lparr>arguments := (arguments s)[argNo s := w]\<rparr> in
           if w = [] then
             ParseArgv_loop (s1\<lparr>consumeNextPositionalArgument := True, argNo := argNo s + 1\<rparr>)
           else ParseArgv_loop (s1\<lparr>posArg := w, argNo := argNo s + 1\<rparr>))
        else if curWord = ''-v'' \<or> curWord = ''--verbose'' then
          ParseArgv_loop (s\<lparr>result_verbose := True, argNo := argNo s + 1\<rparr>)
        else if curWord = ''-h'' \<or> curWord = ''--help'' then ReturnFalse [] s
        else if starts_with curWord ''-'' then
          ReturnFalse (''Unknown option '' @ curWord @ endl) s
        else LoopEnd s)
     else LoopEnd s)"
  by pat_completeness auto
termination
  by (relation "measure (\<lambda>s. length (arguments s) - argNo s)") auto

declare ParseArgv_loop.simps [simp del]

text \<open>The locals at loop entry (source lines 87 to 95).\<close>

definition ParseArgv_entry :: "string list \<Rightarrow> CliParams \<Rightarrow> ParseArgv_locals" where
  "ParseArgv_entry args result =
     \<lparr>arguments = args, argNo = 0, consumeNextPositionalArgument = False,
      posArg = [], result_verbose = verbose result\<rparr>"

text \<open>
  \<^verbatim>\<open>bool ParseArgv(int argc, wchar_t *argv[], CliParams &result)\<close>. The value is \<open>None\<close>
  when \<^verbatim>\<open>assert(argc >= 1)\<close> fails, and otherwise the returned flag, the caller's structure
  as the call leaves it, and the text written to the error stream.
\<close>

definition ParseArgv :: "string list \<Rightarrow> CliParams \<Rightarrow> (bool \<times> CliParams \<times> string) option" where
  "ParseArgv argv result =
    (if \<not> 1 \<le> length argv then None
     else
       (case ParseArgv_loop (ParseArgv_entry (tl argv) result) of
          ReturnFalse err s \<Rightarrow> Some (False, result\<lparr>verbose := result_verbose s\<rparr>, err)
        | LoopEnd s \<Rightarrow>
            (let result1 = result\<lparr>verbose := result_verbose s\<rparr> in
             if posArg s = ''--'' then
               Some (False, result1, ''Missing positional argument'' @ endl)
             else
               (let result2 = (if length (posArg s) \<noteq> 0
                               then result1\<lparr>outputFileName := posArg s\<rparr> else result1) in
                if argNo s = length (arguments s) then
                  Some (False, result2, ''Missing program name'' @ endl)
                else
                  Some (True,
                        result2\<lparr>cmdLine := foldl (\<lambda>c a. c @ '' '' @ a) (arguments s ! argNo s)
                                               (drop (argNo s + 1) (arguments s))\<rparr>,
                        [])))))"

text \<open>The words of a list joined by single spaces, as the specification words it.\<close>

fun space_join :: "string list \<Rightarrow> string" where
  "space_join [] = []"
| "space_join [w] = w"
| "space_join (w # v # ws) = w @ '' '' @ space_join (v # ws)"

section \<open>Numbers on the output stream\<close>

text \<open>Digits and the decimal rendering of an unsigned integer, as \<^verbatim>\<open>operator<<\<close> writes it.\<close>

definition digit :: "nat \<Rightarrow> char" where
  "digit n = ''0123456789'' ! (n mod 10)"

fun decimal :: "nat \<Rightarrow> string" where
  "decimal n = (if n < 10 then [digit n] else decimal (n div 10) @ [digit (n mod 10)])"

declare decimal.simps [simp del]

text \<open>
  A finite \<^verbatim>\<open>double\<close> is modelled by a pair \<open>(m, e)\<close> of integers that stands for
  \<open>m * 2 ^ e\<close>. \<open>round_binary64\<close> rounds such a number to 53 significant bits, ties to
  even, which is what converting a \<^verbatim>\<open>LONGLONG\<close> to \<^verbatim>\<open>double\<close> and multiplying two
  doubles do in the default rounding mode. The products of this program lie between
  \<open>10\<^sup>-\<^sup>7\<close> and \<open>10\<^sup>1\<^sup>2\<close> in magnitude (or are zero), so neither subnormal numbers nor infinities
  occur.
\<close>

fun bit_length :: "nat \<Rightarrow> nat" where
  "bit_length n = (if n = 0 then 0 else Suc (bit_length (n div 2)))"

declare bit_length.simps [simp del]

text \<open>\<open>a / d\<close> rounded to the nearest integer, a tie to the even neighbour.\<close>

definition round_half_even :: "nat \<Rightarrow> nat \<Rightarrow> nat" where
  "round_half_even a d =
    (if d < 2 * (a mod d) \<or> (2 * (a mod d) = d \<and> odd (a div d)) then a div d + 1
     else a div d)"

definition round_binary64 :: "int \<Rightarrow> int \<Rightarrow> int \<times> int" where
  "round_binary64 m e =
    (sgn m * int (round_half_even (nat \<bar>m\<bar>) (2 ^ (bit_length (nat \<bar>m\<bar>) - 53))),
     e + int (bit_length (nat \<bar>m\<bar>) - 53))"

text \<open>
  \<^verbatim>\<open>const double timeUnit = 1.0e-7\<close>: the double nearest to \<open>10\<^sup>-\<^sup>7\<close> is
  \<^verbatim>\<open>0x1.ad7f29abcaf48p-24\<close>, that is \<open>7555786372591432 * 2\<^sup>-\<^sup>7\<^sup>6\<close>.
\<close>

definition timeUnit :: "int \<times> int" where
  "timeUnit = (7555786372591432, - 76)"

definition double_of_LONGLONG :: "64 word \<Rightarrow> int \<times> int" where
  "double_of_LONGLONG x = round_binary64 (sint x) 0"

definition double_mult :: "int \<times> int \<Rightarrow> int \<times> int \<Rightarrow> int \<times> int" where
  "double_mult x y = round_binary64 (fst x * fst y) (snd x + snd y)"

text \<open>
  A double written under \<^verbatim>\<open>std::fixed << std::setprecision(2)\<close>: the value rounded to
  hundredths, then sign, integer part, the point and two digits. A tie, which only a
  multiple of one eighth can be, goes to the even neighbour here; C runtimes differ on
  ties, and nothing below depends on one.
\<close>

definition hundredths :: "int \<times> int \<Rightarrow> nat" where
  "hundredths x =
    (if 0 \<le> snd x then nat \<bar>fst x\<bar> * 100 * 2 ^ nat (snd x)
     else round_half_even (nat \<bar>fst x\<bar> * 100) (2 ^ nat (- snd x)))"

definition fixed2 :: "int \<times> int \<Rightarrow> string" where
  "fixed2 x =
    (if fst x < 0 then ''-'' else []) @ decimal (hundredths x div 100) @ ''.'' @
    [digit (hundredths x mod 100 div 10), digit (hundredths x mod 10)]"

text \<open>\<^verbatim>\<open>timeUnit * t\<close> for a \<^verbatim>\<open>LONGLONG t\<close> of 100 ns units, as the stream writes it.\<close>

definition seconds :: "64 word \<Rightarrow> string" where
  "seconds t = fixed2 (double_mult timeUnit (double_of_LONGLONG t))"

section \<open>The platform and the run\<close>

record FILETIME =
  dwLowDateTime :: "32 word"
  dwHighDateTime :: "32 word"

text \<open>The fields of \<^verbatim>\<open>JOBOBJECT_BASIC_ACCOUNTING_INFORMATION\<close> that the program reads.\<close>

record JOBOBJECT_BASIC_ACCOUNTING_INFORMATION =
  TotalUserTime :: "64 word"
  TotalKernelTime :: "64 word"
  TotalPageFaultCount :: "32 word"
  ActiveProcesses :: "32 word"

text \<open>
  What the operating system answers to each call of one run. A call that fails answers
  \<open>False\<close> or \<open>None\<close>. \<open>WaitForSingleObject\<close> is whether the wait returned
  \<^verbatim>\<open>WAIT_OBJECT_0\<close>; \<open>open_file\<close> is whether the output file could be opened.
\<close>

record platform =
  CreateProcess :: "string \<Rightarrow> bool"
  CreateJobObject :: bool
  AssignProcessToJobObject :: bool
  WaitForSingleObject :: bool
  GetExitCodeProcess :: "32 word option"
  GetProcessTimes :: "(FILETIME \<times> FILETIME) option"
  QueryInformationJobObject :: "JOBOBJECT_BASIC_ACCOUNTING_INFORMATION option"
  GetLastError :: "32 word"
  FormatMessage :: "32 word \<Rightarrow> string"
  open_file :: "string \<Rightarrow> bool"

definition GetLastErrorDescription :: "platform \<Rightarrow> string" where
  "GetLastErrorDescription os =
    (let errcode = GetLastError os in
     if errcode = 0 then [] else FormatMessage os errcode)"

text \<open>The calls that act on the launched process and its job object, in the order made.\<close>

datatype api_call =
  Call_CreateProcess_suspended string
| Call_CreateJobObject
| Call_AssignProcessToJobObject
| Call_ResumeThread
| Call_WaitForSingleObject
| Call_GetExitCodeProcess
| Call_GetProcessTimes
| Call_QueryInformationJobObject
| Call_CloseHandle_hProcess
| Call_CloseHandle_hJob

text \<open>
  How the tool ends: with an exit status (\<^verbatim>\<open>return\<close> from \<^verbatim>\<open>wmain\<close> or \<^verbatim>\<open>exit\<close>), or
  aborted by a failed \<^verbatim>\<open>assert\<close>, named by the asserted expression and its source line.
  The documented build command does not define \<^verbatim>\<open>NDEBUG\<close>, so assertions are checked.
\<close>

datatype ending =
  Exit int
| AssertionFailed string nat

text \<open>
  What a run leaves behind: its ending, the calls made, the text the program wrote to
  the error stream and to standard output, and the output file written, if any, with its
  contents. The diagnostic that the C runtime prints for a failed assertion is not part
  of \<open>errors\<close>.
\<close>

record run =
  ending :: ending
  calls :: "api_call list"
  errors :: string
  stdout :: string
  outfile :: "(string \<times> string) option"

text \<open>
  \<^verbatim>\<open>void UsageAndExit(wchar_t *argv[])\<close>: the text written to the error stream and the
  status passed to \<^verbatim>\<open>exit\<close>.
\<close>

definition UsageAndExit :: "string list \<Rightarrow> string \<times> int" where
  "UsageAndExit argv =
    (''chronos - report wallclock, user and system times of process'' @ endl @
     ''Copyright (c) 2016, Grigory Rechistov'' @ endl @ endl @
     ''Usage: '' @ hd argv @ '' [-v] [-o file] [--] program [options]'' @ endl @
     endl @
     ''Run program and report its resources usage'' @ endl @
     ''   --verbose, -v          produce results in verbose format'' @ endl @
     ''   --output, -o filename  write result to filename instead of stdout'' @ endl @
     ''   program                program name to start'' @ endl @
     ''   options                the program'' @ [CHR 0x27] @ ''s own arguments'' @ endl @ endl,
     1)"

text \<open>\<^verbatim>\<open>(LONGLONG)t.dwHighDateTime << 32 | t.dwLowDateTime\<close>\<close>

definition time100Ns :: "FILETIME \<Rightarrow> 64 word" where
  "time100Ns t = or (push_bit 32 (ucast (dwHighDateTime t))) (ucast (dwLowDateTime t))"

text \<open>The text written to \<^verbatim>\<open>out\<close> (source lines 258 to 274).\<close>

definition report :: "CliParams \<Rightarrow> 64 word \<Rightarrow> 64 word \<Rightarrow> 64 word \<Rightarrow> 32 word \<Rightarrow> 32 word \<Rightarrow> string" where
  "report params wallclockTime100Ns userTime100Ns kernelTime100Ns pageFaults exitCode =
    endl @
    (if verbose params then
       ''Command being timed: '' @ [CHR 0x22] @ cmdLine params @ [CHR 0x22] @ endl @
       ''Elapsed (wall clock) time (seconds): '' @ seconds wallclockTime100Ns @ endl @
       ''User time (seconds): '' @ seconds userTime100Ns @ endl @
       ''System time (seconds): '' @ seconds kernelTime100Ns @ endl @
       ''Page faults: '' @ decimal (unat pageFaults) @ endl @
       ''Exit status: '' @ decimal (unat exitCode) @ endl
     else
       ''real'' @ tab @ seconds wallclockTime100Ns @ ''s'' @ endl @
       ''user'' @ tab @ seconds userTime100Ns @ ''s'' @ endl @
       ''sys'' @ tab @ seconds kernelTime100Ns @ ''s'' @ endl)"

text \<open>\<^verbatim>\<open>CliParams params = { 0 }\<close>\<close>

definition initial_params :: CliParams where
  "initial_params = \<lparr>verbose = False, outputFileName = [], cmdLine = []\<rparr>"

text \<open>
  \<^verbatim>\<open>int wmain(int argc, wchar_t* argv[])\<close>. The returned \<^verbatim>\<open>DWORD exitCode\<close> is converted
  to \<^verbatim>\<open>int\<close>, which \<open>sint\<close> reads.
\<close>

definition wmain :: "platform \<Rightarrow> string list \<Rightarrow> run" where
  "wmain os argv =
    (case ParseArgv argv initial_params of
       None \<Rightarrow>
         \<lparr>ending = AssertionFailed ''argc >= 1'' 84, calls = [], errors = [], stdout = [],
          outfile = None\<rparr>
     | Some (parsed, params, parseErrors) \<Rightarrow>
         if \<not> parsed then
           \<lparr>ending = Exit (snd (UsageAndExit argv)), calls = [],
            errors = parseErrors @ fst (UsageAndExit argv), stdout = [], outfile = None\<rparr>
         else
           (let c1 = [Call_CreateProcess_suspended (cmdLine params)] in
            if \<not> CreateProcess os (cmdLine params) then
              \<lparr>ending = Exit 127, calls = c1,
               errors = ''Unable to start the process: '' @ GetLastErrorDescription os @ endl,
               stdout = [], outfile = None\<rparr>
            else
              (let c2 = c1 @ [Call_CreateJobObject] in
               if \<not> CreateJobObject os then
                 \<lparr>ending = AssertionFailed ''hJob != NULL'' 195, calls = c2, errors = [],
                  stdout = [], outfile = None\<rparr>
               else
                 (let c3 = c2 @ [Call_AssignProcessToJobObject] in
                  if \<not> AssignProcessToJobObject os then
                    \<lparr>ending = AssertionFailed ''ret'' 197, calls = c3, errors = [],
                     stdout = [], outfile = None\<rparr>
                  else
                    (let c5 = c3 @ [Call_ResumeThread, Call_WaitForSingleObject] in
                     if \<not> WaitForSingleObject os then
                       \<lparr>ending = Exit 127, calls = c5,
                        errors = ''Failed waiting for process termination: '' @
                                 GetLastErrorDescription os @ endl,
                        stdout = [], outfile = None\<rparr>
                     else
                       (let c6 = c5 @ [Call_GetExitCodeProcess] in
                        case GetExitCodeProcess os of
                          None \<Rightarrow>
                            \<lparr>ending = AssertionFailed ''ret'' 211, calls = c6, errors = [],
                             stdout = [], outfile = None\<rparr>
                        | Some exitCode \<Rightarrow>
                            (let c7 = c6 @ [Call_GetProcessTimes] in
                             case GetProcessTimes os of
                               None \<Rightarrow>
                                 \<lparr>ending = AssertionFailed ''ret'' 217, calls = c7,
                                  errors = [], stdout = [], outfile = None\<rparr>
                             | Some (createTime, exitTime) \<Rightarrow>
                                 (let wallclockTime100Ns =
                                        time100Ns exitTime - time100Ns createTime;
                                      c8 = c7 @ [Call_QueryInformationJobObject] in
                                  case QueryInformationJobObject os of
                                    None \<Rightarrow>
                                      \<lparr>ending = AssertionFailed ''ret'' 227, calls = c8,
                                       errors = [], stdout = [], outfile = None\<rparr>
                                  | Some jobInfo \<Rightarrow>
                                      (let text = report params wallclockTime100Ns
                                                    (TotalUserTime jobInfo)
                                                    (TotalKernelTime jobInfo)
                                                    (TotalPageFaultCount jobInfo) exitCode
                                       in
                                       \<lparr>ending = Exit (sint exitCode),
                                        calls = c8 @ [Call_CloseHandle_hProcess,
                                                      Call_CloseHandle_hJob],
                                        errors =
                                          (if ActiveProcesses jobInfo \<noteq> 0 then
                                             ''Warning: there are still '' @
                                             decimal (unat (ActiveProcesses jobInfo)) @
                                             '' alive children processes'' @ endl
                                           else []),
                                        stdout =
                                          (if outputFileName params \<noteq> [] then []
                                           else text),
                                        outfile =
                                          (if outputFileName params \<noteq> []
                                              \<and> open_file os (outputFileName params)
                                           then Some (outputFileName params, text)
                                           else None)\<rparr>)))))))))"

text \<open>
  Every step of a run up to the collection of the metrics succeeds: the arguments parse
  to \<open>params\<close>, the process is launched, put into a job object and waited for, and the
  exit code, the two time stamps and the accounting of the job object are obtained.
\<close>

definition all_succeed ::
  "platform \<Rightarrow> string list \<Rightarrow> CliParams \<Rightarrow> 32 word \<Rightarrow> FILETIME \<Rightarrow> FILETIME \<Rightarrow>
     JOBOBJECT_BASIC_ACCOUNTING_INFORMATION \<Rightarrow> bool" where
  "all_succeed os argv params exitCode createTime exitTime jobInfo =
    ((\<exists>err. ParseArgv argv initial_params = Some (True, params, err)) \<and>
     CreateProcess os (cmdLine params) \<and> CreateJobObject os \<and>
     AssignProcessToJobObject os \<and> WaitForSingleObject os \<and>
     GetExitCodeProcess os = Some exitCode \<and>
     GetProcessTimes os = Some (createTime, exitTime) \<and>
     QueryInformationJobObject os = Some jobInfo)"

text \<open>
  A scripted platform for examples: every call succeeds; the process was created at
  \<^verbatim>\<open>0x01D1A2B3FFFFFF00\<close> and exited 30000000 units (3 s) later, the job object
  accounts 1 s of user time, 0.5 s of kernel time and 7 page faults; the exit code and the
  number of processes still active are parameters. A failing call, where one is asked
  for, reports error 5.
\<close>

definition scripted :: "32 word \<Rightarrow> 32 word \<Rightarrow> platform" where
  "scripted exitCode active =
    \<lparr>CreateProcess = (\<lambda>c. True), CreateJobObject = True, AssignProcessToJobObject = True,
     WaitForSingleObject = True, GetExitCodeProcess = Some exitCode,
     GetProcessTimes =
       Some (\<lparr>dwLowDateTime = 0xFFFFFF00, dwHighDateTime = 0x01D1A2B3\<rparr>,
             \<lparr>dwLowDateTime = 29999744, dwHighDateTime = 0x01D1A2B4\<rparr>),
     QueryInformationJobObject =
       Some \<lparr>TotalUserTime = 10000000, TotalKernelTime = 5000000, TotalPageFaultCount = 7,
             ActiveProcesses = active\<rparr>,
     GetLastError = 5, FormatMessage = (\<lambda>e. ''Access is denied.''),
     open_file = (\<lambda>f. True)\<rparr>"

section \<open>The option loop, word by word\<close>

text \<open>
  A proof device: the loop of \<open>ParseArgv\<close> as a recursion on the words not yet read.
  \<open>loop_scan\<close> below shows that it computes what \<open>ParseArgv_loop\<close> computes.
\<close>

datatype scan_exit =
  ScanFalse string bool
| ScanEnd "string list" string bool

fun scan :: "string list \<Rightarrow> bool \<Rightarrow> string \<Rightarrow> bool \<Rightarrow> scan_exit" where
  "scan [] c p v = ScanEnd [] p v"
| "scan (w # ws) c p v =
    (if c then scan ws False w v
     else if w = ''--'' then ScanEnd ws p v
     else if starts_with w ''-o'' then
       (if drop 2 w = [] then scan ws True p v else scan ws False (drop 2 w) v)
     else if starts_with w ''--output'' then
       (if drop 8 w = [] then scan ws True p v else scan ws False (drop 8 w) v)
     else if w = ''-v'' \<or> w = ''--verbose'' then scan ws False p True
     else if w = ''-h'' \<or> w = ''--help'' then ScanFalse [] v
     else if starts_with w ''-'' then ScanFalse (''Unknown option '' @ w @ endl) v
     else ScanEnd (w # ws) p v)"

fun abs_exit :: "loop_exit \<Rightarrow> scan_exit" where
  "abs_exit (ReturnFalse e s) = ScanFalse e (result_verbose s)"
| "abs_exit (LoopEnd s) = ScanEnd (drop (argNo s) (arguments s)) (posArg s) (result_verbose s)"

text \<open>What \<open>ParseArgv\<close> does once the loop is left (source lines 143 to 162), on a \<open>scan_exit\<close>.\<close>

definition finish :: "CliParams \<Rightarrow> scan_exit \<Rightarrow> bool \<times> CliParams \<times> string" where
  "finish result x =
    (case x of
       ScanFalse err v \<Rightarrow> (False, result\<lparr>verbose := v\<rparr>, err)
     | ScanEnd rest p v \<Rightarrow>
         if p = ''--'' then (False, result\<lparr>verbose := v\<rparr>, ''Missing positional argument'' @ endl)
         else if rest = [] then
           (False, (if p \<noteq> [] then result\<lparr>verbose := v, outputFileName := p\<rparr>
                    else result\<lparr>verbose := v\<rparr>), ''Missing program name'' @ endl)
         else
           (True, (if p \<noteq> [] then result\<lparr>verbose := v, outputFileName := p\<rparr>
                   else result\<lparr>verbose := v\<rparr>)\<lparr>cmdLine := space_join rest\<rparr>, []))"

section \<open>Lemmas on the option loop\<close>

lemma space_join_Cons: "space_join (w # ws) = w @ concat (map (\<lambda>a. '' '' @ a) ws)"
  by (induction ws arbitrary: w) simp_all

lemma foldl_space_join: "foldl (\<lambda>c a. c @ '' '' @ a) w ws = space_join (w # ws)"
proof -
  have "foldl (\<lambda>c a. c @ '' '' @ a) w ws = w @ concat (map (\<lambda>a. '' '' @ a) ws)"
    by (induction ws arbitrary: w) simp_all
  then show ?thesis
    by (simp only: space_join_Cons)
qed

lemma loop_scan:
  "abs_exit (ParseArgv_loop s) =
     scan (drop (argNo s) (arguments s)) (consumeNextPositionalArgument s) (posArg s)
       (result_verbose s)"
proof (induction s rule: ParseArgv_loop.induct)
  case (1 s)
  show ?case
  proof (cases "argNo s < length (arguments s)")
    case False
    then show ?thesis by (simp add: ParseArgv_loop.simps [of s])
  next
    case True
    then have d: "drop (argNo s) (arguments s)
        = arguments s ! argNo s # drop (Suc (argNo s)) (arguments s)"
      by (simp add: Cons_nth_drop_Suc)
    show ?thesis
      using True 1
      by (subst ParseArgv_loop.simps) (auto simp add: d Let_def starts_with_def)
  qed
qed

lemma loop_step:
  assumes "argNo s < length (arguments s)"
  shows "(\<exists>s2. ParseArgv_loop s = ParseArgv_loop s2 \<and> argNo s2 = Suc (argNo s) \<and>
            length (arguments s2) = length (arguments s) \<and>
            drop (Suc (argNo s)) (arguments s2) = drop (Suc (argNo s)) (arguments s)) \<or>
         ParseArgv_loop s = LoopEnd (s\<lparr>argNo := Suc (argNo s)\<rparr>) \<or>
         ParseArgv_loop s = LoopEnd s \<or>
         (\<exists>e. ParseArgv_loop s = ReturnFalse e s)"
proof -
  let ?w = "arguments s ! argNo s"
  consider (is_consume) "consumeNextPositionalArgument s"
    | (is_sep) "\<not> consumeNextPositionalArgument s" "?w = ''--''"
    | (is_o) "\<not> consumeNextPositionalArgument s" "?w \<noteq> ''--''" "starts_with ?w ''-o''"
    | (is_output) "\<not> consumeNextPositionalArgument s" "?w \<noteq> ''--''" "\<not> starts_with ?w ''-o''"
        "starts_with ?w ''--output''"
    | (is_v) "\<not> consumeNextPositionalArgument s" "?w \<noteq> ''--''" "\<not> starts_with ?w ''-o''"
        "\<not> starts_with ?w ''--output''" "?w = ''-v'' \<or> ?w = ''--verbose''"
    | (is_other) "\<not> consumeNextPositionalArgument s" "?w \<noteq> ''--''" "\<not> starts_with ?w ''-o''"
        "\<not> starts_with ?w ''--output''" "\<not> (?w = ''-v'' \<or> ?w = ''--verbose'')"
    by blast
  then show ?thesis
  proof cases
    case is_consume
    with assms have "ParseArgv_loop s = ParseArgv_loop
        (s\<lparr>posArg := ?w, consumeNextPositionalArgument := False, argNo := argNo s + 1\<rparr>)"
      by (simp add: ParseArgv_loop.simps [of s])
    then show ?thesis by (intro disjI1 exI conjI) (assumption, simp_all)
  next
    case is_sep
    with assms show ?thesis by (simp add: ParseArgv_loop.simps [of s])
  next
    case is_o
    let ?s1 = "s\<lparr>arguments := (arguments s)[argNo s := drop 2 ?w]\<rparr>"
    from is_o assms have "ParseArgv_loop s =
        ParseArgv_loop (if drop 2 ?w = []
          then ?s1\<lparr>consumeNextPositionalArgument := True, argNo := argNo s + 1\<rparr>
          else ?s1\<lparr>posArg := drop 2 ?w, argNo := argNo s + 1\<rparr>)"
      by (simp add: ParseArgv_loop.simps [of s] Let_def)
    then show ?thesis by (intro disjI1 exI conjI) (assumption, simp_all)
  next
    case is_output
    let ?s1 = "s\<lparr>arguments := (arguments s)[argNo s := drop 8 ?w]\<rparr>"
    from is_output assms have "ParseArgv_loop s =
        ParseArgv_loop (if drop 8 ?w = []
          then ?s1\<lparr>consumeNextPositionalArgument := True, argNo := argNo s + 1\<rparr>
          else ?s1\<lparr>posArg := drop 8 ?w, argNo := argNo s + 1\<rparr>)"
      by (simp add: ParseArgv_loop.simps [of s] Let_def)
    then show ?thesis by (intro disjI1 exI conjI) (assumption, simp_all)
  next
    case is_v
    with assms have "ParseArgv_loop s =
        ParseArgv_loop (s\<lparr>result_verbose := True, argNo := argNo s + 1\<rparr>)"
      by (simp add: ParseArgv_loop.simps [of s])
    then show ?thesis by (intro disjI1 exI conjI) (assumption, simp_all)
  next
    case is_other
    with assms show ?thesis by (simp add: ParseArgv_loop.simps [of s] Let_def)
  qed
qed

lemma loop_frame:
  "ParseArgv_loop s = LoopEnd s' \<Longrightarrow> argNo s \<le> length (arguments s) \<Longrightarrow>
     length (arguments s') = length (arguments s) \<and> argNo s \<le> argNo s' \<and>
     argNo s' \<le> length (arguments s') \<and>
     drop (argNo s') (arguments s') = drop (argNo s') (arguments s)"
proof (induction "length (arguments s) - argNo s" arbitrary: s rule: less_induct)
  case less
  show ?case
  proof (cases "argNo s < length (arguments s)")
    case False
    with less.prems show ?thesis by (simp add: ParseArgv_loop.simps [of s])
  next
    case True
    from loop_step [OF True] show ?thesis
    proof (elim disjE exE conjE)
      fix s2
      assume s2: "ParseArgv_loop s = ParseArgv_loop s2" "argNo s2 = Suc (argNo s)"
        "length (arguments s2) = length (arguments s)"
        "drop (Suc (argNo s)) (arguments s2) = drop (Suc (argNo s)) (arguments s)"
      have "length (arguments s2) - argNo s2 < length (arguments s) - argNo s"
        using s2 True by simp
      moreover have "ParseArgv_loop s2 = LoopEnd s'" using s2 less.prems by simp
      moreover have "argNo s2 \<le> length (arguments s2)" using s2 True by simp
      ultimately have ih: "length (arguments s') = length (arguments s2)"
        "argNo s2 \<le> argNo s'" "argNo s' \<le> length (arguments s')"
        "drop (argNo s') (arguments s') = drop (argNo s') (arguments s2)"
        using less.hyps [of s2] by simp_all
      obtain k where k: "argNo s' = k + Suc (argNo s)"
        using ih(2) s2(2) by (metis add.commute le_Suc_ex)
      have "drop (argNo s') (arguments s2) = drop (argNo s') (arguments s)"
        unfolding k using s2(4) by (metis drop_drop)
      with ih s2 show ?thesis by simp
    next
      assume "ParseArgv_loop s = LoopEnd (s\<lparr>argNo := Suc (argNo s)\<rparr>)"
      with less.prems True show ?thesis by auto
    next
      assume "ParseArgv_loop s = LoopEnd s"
      with less.prems True show ?thesis by auto
    next
      fix e assume "ParseArgv_loop s = ReturnFalse e s"
      with less.prems show ?thesis by simp
    qed
  qed
qed

lemma ParseArgv_scan:
  "ParseArgv (argv0 # args) result =
     Some (finish result (scan args False [] (verbose result)))"
proof (cases "ParseArgv_loop (ParseArgv_entry args result)")
  case (ReturnFalse err s)
  with loop_scan [of "ParseArgv_entry args result"]
  have "scan args False [] (verbose result) = ScanFalse err (result_verbose s)"
    by (simp add: ParseArgv_entry_def)
  with ReturnFalse show ?thesis
    by (simp add: ParseArgv_def finish_def)
next
  case (LoopEnd s)
  with loop_scan [of "ParseArgv_entry args result"]
  have sc: "scan args False [] (verbose result) =
      ScanEnd (drop (argNo s) (arguments s)) (posArg s) (result_verbose s)"
    by (simp add: ParseArgv_entry_def)
  from loop_frame [OF LoopEnd] have le: "argNo s \<le> length (arguments s)"
    by (simp add: ParseArgv_entry_def)
  show ?thesis
  proof (cases "argNo s = length (arguments s)")
    case True
    with LoopEnd sc show ?thesis
      by (simp add: ParseArgv_def finish_def Let_def)
  next
    case False
    with le have lt: "argNo s < length (arguments s)" by simp
    then have d: "drop (argNo s) (arguments s)
        = arguments s ! argNo s # drop (Suc (argNo s)) (arguments s)"
      by (simp add: Cons_nth_drop_Suc)
    from LoopEnd sc False lt show ?thesis
      by (simp add: ParseArgv_def finish_def Let_def d foldl_space_join [simplified] del: space_join.simps)
  qed
qed

lemma starts_with_o [simp]: "starts_with (''-o'' @ F) ''-o''"
  by (simp add: starts_with_def)

lemma starts_with_output [simp]:
  "starts_with (''--output'' @ F) ''--output''" "\<not> starts_with (''--output'' @ F) ''-o''"
  by (simp_all add: starts_with_def)

lemma not_option:
  assumes "\<not> starts_with w ''-''"
  shows "w \<noteq> ''--''" "\<not> starts_with w ''-o''" "\<not> starts_with w ''--output''"
    "w \<noteq> ''-v''" "w \<noteq> ''--verbose''" "w \<noteq> ''-h''" "w \<noteq> ''--help''"
  using assms by (cases w; simp add: starts_with_def; fail)+

lemma scan_program:
  "\<not> starts_with prog ''-'' \<Longrightarrow> scan (prog # options) False p v = ScanEnd (prog # options) p v"
  by (simp add: not_option)

lemma scan_attached:
  "FILE \<noteq> [] \<Longrightarrow> scan ((''-o'' @ FILE) # rest) False p v = scan rest False FILE v"
  "FILE \<noteq> [] \<Longrightarrow> scan ((''--output'' @ FILE) # rest) False p v = scan rest False FILE v"
  by (simp_all add: starts_with_def)

lemma scan_detached:
  "scan (''-o'' # t # rest) False p v = scan rest False t v"
  "scan (''--output'' # t # rest) False p v = scan rest False t v"
  by (simp_all add: starts_with_def)

lemma finish_program:
  "p \<noteq> ''--'' \<Longrightarrow> p \<noteq> [] \<Longrightarrow>
     finish result (ScanEnd (prog # options) p (verbose result))
       = (True, result\<lparr>outputFileName := p, cmdLine := space_join (prog # options)\<rparr>, [])"
  by (simp add: finish_def del: space_join.simps)

lemma finish_no_output:
  "finish result (ScanEnd (prog # options) [] (verbose result))
     = (True, result\<lparr>cmdLine := space_join (prog # options)\<rparr>, [])"
  by (simp add: finish_def del: space_join.simps)

section \<open>The command line handed to the launched process\<close>

text \<open>
  Claim C4, as amended. When the option loop ends at a word of the vector (the program
  token: \<open>argNo\<close> is below the number of arguments) and the output value \<open>posArg\<close> is not
  the word \<^verbatim>\<open>--\<close>, parsing succeeds, writes nothing to the error stream, and the command
  line is the program token and every later word of the original vector, in order,
  joined by single spaces; the words that the loop overwrote while stripping option
  prefixes all lie before the program token. In particular this holds for a vector that
  begins with a word without a leading dash, and for one that begins with the separator
  \<^verbatim>\<open>--\<close>, whatever the word behind the separator begins with.
\<close>

theorem ParseArgv_cmdLine:
  "(ParseArgv_loop (ParseArgv_entry args result) = LoopEnd s \<and> argNo s < length args \<and>
      posArg s \<noteq> ''--'' \<longrightarrow>
      (\<exists>result'. ParseArgv (argv0 # args) result = Some (True, result', []) \<and>
         cmdLine result' = space_join (drop (argNo s) args))) \<and>
   (\<not> starts_with prog ''-'' \<longrightarrow>
      ParseArgv (argv0 # prog # options) result
        = Some (True, result\<lparr>cmdLine := space_join (prog # options)\<rparr>, [])) \<and>
   ParseArgv (argv0 # ''--'' # prog # options) result
     = Some (True, result\<lparr>cmdLine := space_join (prog # options)\<rparr>, [])"
proof (intro conjI impI)
  assume a: "ParseArgv_loop (ParseArgv_entry args result) = LoopEnd s \<and> argNo s < length args \<and>
      posArg s \<noteq> ''--''"
  then have l: "ParseArgv_loop (ParseArgv_entry args result) = LoopEnd s"
    by simp
  from loop_frame [OF l]
  have fr: "length (arguments s) = length args"
    "drop (argNo s) (arguments s) = drop (argNo s) args"
    by (simp_all add: ParseArgv_entry_def)
  from loop_scan [of "ParseArgv_entry args result"] l fr
  have sc: "scan args False [] (verbose result) =
      ScanEnd (drop (argNo s) args) (posArg s) (result_verbose s)"
    by (simp add: ParseArgv_entry_def)
  from a have "drop (argNo s) args \<noteq> []" by simp
  with sc a show "\<exists>result'. ParseArgv (argv0 # args) result = Some (True, result', []) \<and>
      cmdLine result' = space_join (drop (argNo s) args)"
    by (simp add: ParseArgv_scan finish_def)
next
  assume p: "\<not> starts_with prog ''-''"
  show "ParseArgv (argv0 # prog # options) result
      = Some (True, result\<lparr>cmdLine := space_join (prog # options)\<rparr>, [])"
    by (simp only: ParseArgv_scan scan_program [OF p] finish_no_output)
next
  have "scan (''--'' # prog # options) False [] (verbose result)
      = ScanEnd (prog # options) [] (verbose result)"
    by simp
  then show "ParseArgv (argv0 # ''--'' # prog # options) result
      = Some (True, result\<lparr>cmdLine := space_join (prog # options)\<rparr>, [])"
    by (simp only: ParseArgv_scan finish_no_output)
qed

text \<open>
  The theorem at \<^verbatim>\<open>chronos -v -oout.txt -- -prog --x -y\<close>, where the loop stops behind
  the separator and the words after it keep their leading dashes, and at
  \<^verbatim>\<open>chronos prog -v --x\<close>.
\<close>

theorem ParseArgv_cmdLine_witness:
  "ParseArgv_loop (ParseArgv_entry [''-v'', ''-oout.txt'', ''--'', ''-prog'', ''--x'', ''-y'']
       \<lparr>verbose = False, outputFileName = [], cmdLine = []\<rparr>)
     = LoopEnd \<lparr>arguments = [''-v'', ''out.txt'', ''--'', ''-prog'', ''--x'', ''-y''], argNo = 3,
         consumeNextPositionalArgument = False, posArg = ''out.txt'', result_verbose = True\<rparr> \<and>
   (\<exists>result'. ParseArgv [''chronos'', ''-v'', ''-oout.txt'', ''--'', ''-prog'', ''--x'', ''-y'']
        \<lparr>verbose = False, outputFileName = [], cmdLine = []\<rparr> = Some (True, result', []) \<and>
      cmdLine result' = ''-prog --x -y'') \<and>
   ParseArgv [''chronos'', ''prog'', ''-v'', ''--x'']
       \<lparr>verbose = False, outputFileName = [], cmdLine = []\<rparr>
     = Some (True, \<lparr>verbose = False, outputFileName = [], cmdLine = ''prog -v --x''\<rparr>, [])"
proof -
  have l: "ParseArgv_loop
      (ParseArgv_entry [''-v'', ''-oout.txt'', ''--'', ''-prog'', ''--x'', ''-y'']
         \<lparr>verbose = False, outputFileName = [], cmdLine = []\<rparr>)
     = LoopEnd \<lparr>arguments = [''-v'', ''out.txt'', ''--'', ''-prog'', ''--x'', ''-y''], argNo = 3,
         consumeNextPositionalArgument = False, posArg = ''out.txt'', result_verbose = True\<rparr>"
    by (simp add: ParseArgv_loop.simps ParseArgv_entry_def starts_with_def Let_def)
  have p: "\<not> starts_with ''prog'' ''-''"
    by (simp add: starts_with_def)
  from ParseArgv_cmdLine [where args = "[''-v'', ''-oout.txt'', ''--'', ''-prog'', ''--x'', ''-y'']"
      and result = "\<lparr>verbose = False, outputFileName = [], cmdLine = []\<rparr>"
      and s = "\<lparr>arguments = [''-v'', ''out.txt'', ''--'', ''-prog'', ''--x'', ''-y''], argNo = 3,
         consumeNextPositionalArgument = False, posArg = ''out.txt'', result_verbose = True\<rparr>"
      and ?argv0.0 = "''chronos''" and prog = "''prog''" and options = "[''-v'', ''--x'']"] l p
  show ?thesis
    by simp
qed

text \<open>
  The claim as stated fails at \<^verbatim>\<open>chronos -o-- prog\<close>: \<^verbatim>\<open>prog\<close> is the first word that
  is not an option, yet parsing fails, because the output value is the word \<^verbatim>\<open>--\<close>.
\<close>

theorem ParseArgv_cmdLine_counterexample:
  "ParseArgv [''chronos'', ''-o--'', ''prog'']
       \<lparr>verbose = False, outputFileName = [], cmdLine = []\<rparr>
     = Some (False, \<lparr>verbose = False, outputFileName = [], cmdLine = []\<rparr>,
             ''Missing positional argument'' @ endl)"
  by (simp add: ParseArgv_scan finish_def starts_with_def)

section \<open>Spellings of the output option\<close>

text \<open>
  Claim C5, as amended. For every non-empty value \<open>FILE\<close>, the spellings \<^verbatim>\<open>-oFILE\<close>,
  \<^verbatim>\<open>-o FILE\<close>, \<^verbatim>\<open>--outputFILE\<close> and \<^verbatim>\<open>--output FILE\<close> at the head of the vector give the
  same result of \<open>ParseArgv\<close>, whatever follows; and when \<open>FILE\<close> is not the word \<^verbatim>\<open>--\<close>
  and a program token follows, that result is success with \<open>outputFileName = FILE\<close>.
\<close>

theorem output_spellings:
  assumes "FILE \<noteq> []"
  shows "ParseArgv (argv0 # (''-o'' @ FILE) # rest) result
           = ParseArgv (argv0 # ''-o'' # FILE # rest) result \<and>
         ParseArgv (argv0 # (''--output'' @ FILE) # rest) result
           = ParseArgv (argv0 # ''-o'' # FILE # rest) result \<and>
         ParseArgv (argv0 # ''--output'' # FILE # rest) result
           = ParseArgv (argv0 # ''-o'' # FILE # rest) result \<and>
         (FILE \<noteq> ''--'' \<longrightarrow> \<not> starts_with prog ''-'' \<longrightarrow>
            ParseArgv (argv0 # ''-o'' # FILE # prog # options) result
              = Some (True, result\<lparr>outputFileName := FILE, cmdLine := space_join (prog # options)\<rparr>,
                      []))"
proof (intro conjI impI)
  show "ParseArgv (argv0 # (''-o'' @ FILE) # rest) result
      = ParseArgv (argv0 # ''-o'' # FILE # rest) result"
    by (simp only: ParseArgv_scan scan_attached(1) [OF assms] scan_detached)
  show "ParseArgv (argv0 # (''--output'' @ FILE) # rest) result
      = ParseArgv (argv0 # ''-o'' # FILE # rest) result"
    by (simp only: ParseArgv_scan scan_attached(2) [OF assms] scan_detached)
  show "ParseArgv (argv0 # ''--output'' # FILE # rest) result
      = ParseArgv (argv0 # ''-o'' # FILE # rest) result"
    by (simp only: ParseArgv_scan scan_detached)
next
  assume f: "FILE \<noteq> ''--''" and p: "\<not> starts_with prog ''-''"
  show "ParseArgv (argv0 # ''-o'' # FILE # prog # options) result
      = Some (True, result\<lparr>outputFileName := FILE, cmdLine := space_join (prog # options)\<rparr>, [])"
    by (simp only: ParseArgv_scan scan_detached scan_program [OF p] finish_program [OF f assms])
qed

text \<open>The theorem at \<open>FILE = out.txt\<close>, followed by \<^verbatim>\<open>prog -x\<close>.\<close>

theorem output_spellings_witness:
  "ParseArgv [''chronos'', ''-oout.txt'', ''prog'', ''-x''] \<lparr>verbose = False, outputFileName = [], cmdLine = []\<rparr>
     = Some (True, \<lparr>verbose = False, outputFileName = ''out.txt'', cmdLine = ''prog -x''\<rparr>, []) \<and>
   ParseArgv [''chronos'', ''-o'', ''out.txt'', ''prog'', ''-x''] \<lparr>verbose = False, outputFileName = [], cmdLine = []\<rparr>
     = Some (True, \<lparr>verbose = False, outputFileName = ''out.txt'', cmdLine = ''prog -x''\<rparr>, []) \<and>
   ParseArgv [''chronos'', ''--outputout.txt'', ''prog'', ''-x''] \<lparr>verbose = False, outputFileName = [], cmdLine = []\<rparr>
     = Some (True, \<lparr>verbose = False, outputFileName = ''out.txt'', cmdLine = ''prog -x''\<rparr>, []) \<and>
   ParseArgv [''chronos'', ''--output'', ''out.txt'', ''prog'', ''-x''] \<lparr>verbose = False, outputFileName = [], cmdLine = []\<rparr>
     = Some (True, \<lparr>verbose = False, outputFileName = ''out.txt'', cmdLine = ''prog -x''\<rparr>, [])"
proof -
  have f: "''out.txt'' \<noteq> []" "''out.txt'' \<noteq> ''--''" and p: "\<not> starts_with ''prog'' ''-''"
    by (simp_all add: starts_with_def)
  have a: "''-o'' @ ''out.txt'' = ''-oout.txt''" "''--output'' @ ''out.txt'' = ''--outputout.txt''"
    by simp_all
  from output_spellings [OF f(1), of "''chronos''" "[''prog'', ''-x'']"
      "\<lparr>verbose = False, outputFileName = [], cmdLine = []\<rparr>" "''prog''" "[''-x'']"] f(2) p
  have "ParseArgv [''chronos'', ''-o'' @ ''out.txt'', ''prog'', ''-x''] \<lparr>verbose = False, outputFileName = [], cmdLine = []\<rparr>
     = Some (True, \<lparr>verbose = False, outputFileName = ''out.txt'', cmdLine = ''prog -x''\<rparr>, []) \<and>
   ParseArgv [''chronos'', ''-o'', ''out.txt'', ''prog'', ''-x''] \<lparr>verbose = False, outputFileName = [], cmdLine = []\<rparr>
     = Some (True, \<lparr>verbose = False, outputFileName = ''out.txt'', cmdLine = ''prog -x''\<rparr>, []) \<and>
   ParseArgv [''chronos'', ''--output'' @ ''out.txt'', ''prog'', ''-x''] \<lparr>verbose = False, outputFileName = [], cmdLine = []\<rparr>
     = Some (True, \<lparr>verbose = False, outputFileName = ''out.txt'', cmdLine = ''prog -x''\<rparr>, []) \<and>
   ParseArgv [''chronos'', ''--output'', ''out.txt'', ''prog'', ''-x''] \<lparr>verbose = False, outputFileName = [], cmdLine = []\<rparr>
     = Some (True, \<lparr>verbose = False, outputFileName = ''out.txt'', cmdLine = ''prog -x''\<rparr>, [])"
    by (simp del: append.simps append_Cons append_Nil)
  then show ?thesis
    by (simp only: a)
qed

text \<open>
  The claim as stated fails at \<open>FILE = --\<close>: the spellings agree, but on a failure, and
  no output path is set.
\<close>

theorem output_spellings_counterexample:
  "ParseArgv [''chronos'', ''-o'', ''--'', ''prog''] \<lparr>verbose = False, outputFileName = [], cmdLine = []\<rparr>
     = Some (False, \<lparr>verbose = False, outputFileName = [], cmdLine = []\<rparr>, ''Missing positional argument'' @ endl) \<and>
   ParseArgv [''chronos'', ''--output--'', ''prog''] \<lparr>verbose = False, outputFileName = [], cmdLine = []\<rparr>
     = Some (False, \<lparr>verbose = False, outputFileName = [], cmdLine = []\<rparr>, ''Missing positional argument'' @ endl) \<and>
   ParseArgv [''chronos'', ''--output'', ''--'', ''prog''] \<lparr>verbose = False, outputFileName = [], cmdLine = []\<rparr>
     = Some (False, \<lparr>verbose = False, outputFileName = [], cmdLine = []\<rparr>, ''Missing positional argument'' @ endl)"
  by (simp add: ParseArgv_scan finish_def starts_with_def)

section \<open>The word \<^verbatim>\<open>--\<close> as output value\<close>

lemma scan_verbose_flags:
  "set flags \<subseteq> {''-v'', ''--verbose''} \<Longrightarrow>
     scan (flags @ rest) False p v = scan rest False p (v \<or> flags \<noteq> [])"
proof (induction flags arbitrary: v)
  case Nil
  then show ?case by simp
next
  case (Cons f flags)
  then have f: "f = ''-v'' \<or> f = ''--verbose''" and fs: "set flags \<subseteq> {''-v'', ''--verbose''}"
    by simp_all
  from f have "scan ((f # flags) @ rest) False p v = scan (flags @ rest) False p True"
    by (auto simp add: starts_with_def)
  also have "\<dots> = scan rest False p True"
    using Cons.IH [OF fs, of True] by simp
  finally show ?case by simp
qed

lemma scan_stops:
  assumes "rest = [] \<or> (\<exists>w ws. rest = w # ws \<and> (w = ''--'' \<or> \<not> starts_with w ''-''))"
  shows "\<exists>r. scan rest False p v = ScanEnd r p v"
  using assms
proof (elim disjE exE conjE)
  assume "rest = []"
  then show ?thesis by simp
next
  fix w ws
  assume r: "rest = w # ws" and "w = ''--''"
  then have "scan rest False p v = ScanEnd ws p v" by simp
  then show ?thesis by (rule exI)
next
  fix w ws
  assume r: "rest = w # ws" and w: "\<not> starts_with w ''-''"
  have "scan rest False p v = ScanEnd (w # ws) p v"
    unfolding r by (rule scan_program [OF w])
  then show ?thesis by (rule exI)
qed

lemma finish_separator_value:
  "finish result (ScanEnd r ''--'' v)
     = (False, result\<lparr>verbose := v\<rparr>, ''Missing positional argument'' @ endl)"
  by (simp add: finish_def)

text \<open>
  Claim C6, as amended. Whenever the output value \<open>posArg\<close> is the word \<^verbatim>\<open>--\<close> as the option
  loop is left, parsing fails, and the caller's structure receives neither an output
  file name nor a command line (only \<open>verbose\<close> may have been set by the loop). When the
  loop has run to its end, the failure is \<^verbatim>\<open>Missing positional argument\<close>; when the loop
  is cut short by \<^verbatim>\<open>return false\<close>, for a help request or an unknown option, the failure
  is that one, and the check of the output value is not reached. In particular, a
  vector made of verbosity flags, one of the four spellings of the output option with
  the value \<^verbatim>\<open>--\<close>, further verbosity flags, and then nothing, the separator \<^verbatim>\<open>--\<close> or a
  program token, fails with \<^verbatim>\<open>Missing positional argument\<close>.
\<close>

theorem ParseArgv_missing_positional:
  "(posArg s = ''--'' \<and> ParseArgv_loop (ParseArgv_entry args result) = LoopEnd s \<longrightarrow>
      ParseArgv (argv0 # args) result
        = Some (False, result\<lparr>verbose := result_verbose s\<rparr>,
                ''Missing positional argument'' @ endl)) \<and>
   (ParseArgv_loop (ParseArgv_entry args result) = ReturnFalse err s \<longrightarrow>
      ParseArgv (argv0 # args) result = Some (False, result\<lparr>verbose := result_verbose s\<rparr>, err)) \<and>
   (set before \<subseteq> {''-v'', ''--verbose''} \<and> set after \<subseteq> {''-v'', ''--verbose''} \<and>
    (spelled = [''-o--''] \<or> spelled = [''-o'', ''--''] \<or> spelled = [''--output--''] \<or>
     spelled = [''--output'', ''--'']) \<and>
    (rest = [] \<or> (\<exists>w ws. rest = w # ws \<and> (w = ''--'' \<or> \<not> starts_with w ''-''))) \<longrightarrow>
      ParseArgv (argv0 # before @ spelled @ after @ rest) result
        = Some (False, result\<lparr>verbose := (verbose result \<or> before \<noteq> [] \<or> after \<noteq> [])\<rparr>,
                ''Missing positional argument'' @ endl))"
proof (intro conjI impI)
  assume "posArg s = ''--'' \<and> ParseArgv_loop (ParseArgv_entry args result) = LoopEnd s"
  then show "ParseArgv (argv0 # args) result
      = Some (False, result\<lparr>verbose := result_verbose s\<rparr>, ''Missing positional argument'' @ endl)"
    by (simp add: ParseArgv_def)
next
  assume "ParseArgv_loop (ParseArgv_entry args result) = ReturnFalse err s"
  then show "ParseArgv (argv0 # args) result
      = Some (False, result\<lparr>verbose := result_verbose s\<rparr>, err)"
    by (simp add: ParseArgv_def)
next
  assume a: "set before \<subseteq> {''-v'', ''--verbose''} \<and> set after \<subseteq> {''-v'', ''--verbose''} \<and>
    (spelled = [''-o--''] \<or> spelled = [''-o'', ''--''] \<or> spelled = [''--output--''] \<or>
     spelled = [''--output'', ''--'']) \<and>
    (rest = [] \<or> (\<exists>w ws. rest = w # ws \<and> (w = ''--'' \<or> \<not> starts_with w ''-'')))"
  let ?v = "verbose result \<or> before \<noteq> []"
  have 1: "scan (before @ spelled @ after @ rest) False [] (verbose result)
      = scan (spelled @ after @ rest) False [] ?v"
    using a by (simp add: scan_verbose_flags)
  have 2: "scan (spelled @ after @ rest) False [] ?v = scan (after @ rest) False ''--'' ?v"
    using a by (auto simp add: starts_with_def)
  let ?w = "verbose result \<or> before \<noteq> [] \<or> after \<noteq> []"
  have 3: "scan (after @ rest) False ''--'' ?v = scan rest False ''--'' ?w"
    using a by (simp add: scan_verbose_flags)
  from a obtain r where 4: "scan rest False ''--'' ?w = ScanEnd r ''--'' ?w"
    using scan_stops [of rest "''--''" ?w] by blast
  show "ParseArgv (argv0 # before @ spelled @ after @ rest) result
      = Some (False, result\<lparr>verbose := (verbose result \<or> before \<noteq> [] \<or> after \<noteq> [])\<rparr>,
              ''Missing positional argument'' @ endl)"
    by (simp only: ParseArgv_scan 1 2 3 4 finish_separator_value)
qed

text \<open>
  The theorem at \<^verbatim>\<open>chronos -v -o -- prog\<close>, at \<^verbatim>\<open>chronos -v -x\<close> and at
  \<^verbatim>\<open>chronos -v --output-- --verbose -- prog\<close>.
\<close>

theorem ParseArgv_missing_positional_witness:
  "ParseArgv [''chronos'', ''-v'', ''-o'', ''--'', ''prog'']
       \<lparr>verbose = False, outputFileName = [], cmdLine = []\<rparr>
     = Some (False, \<lparr>verbose = True, outputFileName = [], cmdLine = []\<rparr>,
             ''Missing positional argument'' @ endl) \<and>
   ParseArgv [''chronos'', ''-v'', ''-x'']
       \<lparr>verbose = False, outputFileName = [], cmdLine = []\<rparr>
     = Some (False, \<lparr>verbose = True, outputFileName = [], cmdLine = []\<rparr>,
             ''Unknown option -x'' @ endl) \<and>
   ParseArgv [''chronos'', ''-v'', ''--output--'', ''--verbose'', ''--'', ''prog'']
       \<lparr>verbose = False, outputFileName = [], cmdLine = []\<rparr>
     = Some (False, \<lparr>verbose = True, outputFileName = [], cmdLine = []\<rparr>,
             ''Missing positional argument'' @ endl)"
proof -
  let ?r = "\<lparr>verbose = False, outputFileName = [], cmdLine = []\<rparr>"
  let ?s = "\<lparr>arguments = [''-v'', [], ''--'', ''prog''], argNo = 3,
      consumeNextPositionalArgument = False, posArg = ''--'', result_verbose = True\<rparr>"
  let ?t = "\<lparr>arguments = [''-v'', ''-x''], argNo = 1,
      consumeNextPositionalArgument = False, posArg = [], result_verbose = True\<rparr>"
  have l: "ParseArgv_loop (ParseArgv_entry [''-v'', ''-o'', ''--'', ''prog''] ?r) = LoopEnd ?s"
    by (simp add: ParseArgv_loop.simps ParseArgv_entry_def starts_with_def Let_def)
  have f: "ParseArgv_loop (ParseArgv_entry [''-v'', ''-x''] ?r)
      = ReturnFalse (''Unknown option -x'' @ endl) ?t"
    by (simp add: ParseArgv_loop.simps ParseArgv_entry_def starts_with_def Let_def)
  have 1: "ParseArgv [''chronos'', ''-v'', ''-o'', ''--'', ''prog''] ?r
      = Some (False, \<lparr>verbose = True, outputFileName = [], cmdLine = []\<rparr>,
              ''Missing positional argument'' @ endl)"
    using ParseArgv_missing_positional [where s = ?s and args = "[''-v'', ''-o'', ''--'', ''prog'']"
        and result = ?r and ?argv0.0 = "''chronos''"] l
    by simp
  have 2: "ParseArgv [''chronos'', ''-v'', ''-x''] ?r
      = Some (False, \<lparr>verbose = True, outputFileName = [], cmdLine = []\<rparr>,
              ''Unknown option -x'' @ endl)"
    using ParseArgv_missing_positional [where s = ?t and args = "[''-v'', ''-x'']"
        and result = ?r and ?argv0.0 = "''chronos''" and err = "''Unknown option -x'' @ endl"] f
    by simp
  have 3: "ParseArgv [''chronos'', ''-v'', ''--output--'', ''--verbose'', ''--'', ''prog''] ?r
      = Some (False, \<lparr>verbose = True, outputFileName = [], cmdLine = []\<rparr>,
              ''Missing positional argument'' @ endl)"
    using ParseArgv_missing_positional [where before = "[''-v'']" and spelled = "[''--output--'']"
        and after = "[''--verbose'']" and rest = "[''--'', ''prog'']"
        and result = ?r and ?argv0.0 = "''chronos''"]
    by simp
  from 1 2 3 show ?thesis by simp
qed

text \<open>
  The claim as stated fails at \<^verbatim>\<open>chronos -o -- -x prog\<close> and at \<^verbatim>\<open>chronos -o -- -h\<close>: the
  word \<^verbatim>\<open>--\<close> is consumed as the output value and nothing replaces it, yet the failure
  reported is the unknown option, or nothing but the usage text, and not
  \<^verbatim>\<open>Missing positional argument\<close>.
\<close>

theorem ParseArgv_missing_positional_counterexample:
  "ParseArgv [''chronos'', ''-o'', ''--'', ''-x'', ''prog'']
       \<lparr>verbose = False, outputFileName = [], cmdLine = []\<rparr>
     = Some (False, \<lparr>verbose = False, outputFileName = [], cmdLine = []\<rparr>,
             ''Unknown option -x'' @ endl) \<and>
   ParseArgv [''chronos'', ''-o'', ''--'', ''-h'']
       \<lparr>verbose = False, outputFileName = [], cmdLine = []\<rparr>
     = Some (False, \<lparr>verbose = False, outputFileName = [], cmdLine = []\<rparr>, []) \<and>
   ''Unknown option -x'' @ endl \<noteq> ''Missing positional argument'' @ endl"
  by (simp add: ParseArgv_scan finish_def starts_with_def)

section \<open>The word after a standalone output option\<close>

lemma loop_standalone:
  assumes "flag = ''-o'' \<or> flag = ''--output''"
    and "argNo s + 1 < length (arguments s)"
    and "\<not> consumeNextPositionalArgument s"
    and "arguments s ! argNo s = flag"
  shows "ParseArgv_loop s =
           ParseArgv_loop (s\<lparr>arguments := (arguments s)[argNo s := []],
                              posArg := arguments s ! (argNo s + 1),
                              argNo := argNo s + 2\<rparr>)"
proof -
  let ?s1 = "s\<lparr>arguments := (arguments s)[argNo s := []],
                consumeNextPositionalArgument := True, argNo := argNo s + 1\<rparr>"
  have 1: "ParseArgv_loop s = ParseArgv_loop ?s1"
    using assms by (auto simp add: ParseArgv_loop.simps [of s] starts_with_def Let_def)
  have 2: "ParseArgv_loop ?s1 =
      ParseArgv_loop (?s1\<lparr>posArg := arguments ?s1 ! argNo ?s1,
                             consumeNextPositionalArgument := False, argNo := argNo ?s1 + 1\<rparr>)"
    using assms(2) by (subst ParseArgv_loop.simps) simp
  have 3: "?s1\<lparr>posArg := arguments ?s1 ! argNo ?s1,
               consumeNextPositionalArgument := False, argNo := argNo ?s1 + 1\<rparr>
      = s\<lparr>arguments := (arguments s)[argNo s := []],
           posArg := arguments s ! (argNo s + 1), argNo := argNo s + 2\<rparr>"
    using assms(3) by simp
  from 1 2 3 show ?thesis by simp
qed

text \<open>
  Claim C9. Wherever the option loop meets a standalone \<^verbatim>\<open>-o\<close> or \<^verbatim>\<open>--output\<close> with a
  word behind it, that word becomes the output value \<open>posArg\<close> as it stands, whatever it
  begins with, and the loop goes on behind it without reading it as an option. So for a
  vector that begins with such a flag and a word \<open>t\<close>, with a program token behind them,
  parsing succeeds with \<open>outputFileName = t\<close> and \<open>verbose\<close> unset, also when \<open>t\<close> begins
  with a dash. The one exception is the word \<^verbatim>\<open>--\<close>, for which parsing fails.
\<close>

theorem output_value_verbatim:
  assumes "flag = ''-o'' \<or> flag = ''--output''"
  shows "(argNo s + 1 < length (arguments s) \<and> \<not> consumeNextPositionalArgument s \<and>
            arguments s ! argNo s = flag \<longrightarrow>
            ParseArgv_loop s =
              ParseArgv_loop (s\<lparr>arguments := (arguments s)[argNo s := []],
                                 posArg := arguments s ! (argNo s + 1),
                                 argNo := argNo s + 2\<rparr>)) \<and>
         (\<not> starts_with prog ''-'' \<longrightarrow>
            ParseArgv (argv0 # flag # t # prog # options)
                \<lparr>verbose = False, outputFileName = [], cmdLine = []\<rparr>
              = (if t = ''--''
                 then Some (False, \<lparr>verbose = False, outputFileName = [], cmdLine = []\<rparr>,
                            ''Missing positional argument'' @ endl)
                 else Some (True, \<lparr>verbose = False, outputFileName = t,
                                   cmdLine = space_join (prog # options)\<rparr>, [])))"
proof (intro conjI impI)
  assume "argNo s + 1 < length (arguments s) \<and> \<not> consumeNextPositionalArgument s \<and>
    arguments s ! argNo s = flag"
  with assms show "ParseArgv_loop s =
      ParseArgv_loop (s\<lparr>arguments := (arguments s)[argNo s := []],
                         posArg := arguments s ! (argNo s + 1),
                         argNo := argNo s + 2\<rparr>)"
    by (intro loop_standalone) simp_all
next
  assume p: "\<not> starts_with prog ''-''"
  have "scan (flag # t # prog # options) False [] False = ScanEnd (prog # options) t False"
    using assms scan_program [OF p, of options t False]
    by (auto simp only: scan_detached)
  then show "ParseArgv (argv0 # flag # t # prog # options)
                \<lparr>verbose = False, outputFileName = [], cmdLine = []\<rparr>
              = (if t = ''--''
                 then Some (False, \<lparr>verbose = False, outputFileName = [], cmdLine = []\<rparr>,
                            ''Missing positional argument'' @ endl)
                 else Some (True, \<lparr>verbose = False, outputFileName = t,
                                   cmdLine = space_join (prog # options)\<rparr>, []))"
    by (simp only: ParseArgv_scan) (simp add: finish_def)
qed

text \<open>The theorem at \<^verbatim>\<open>chronos -o -v prog\<close>.\<close>

theorem output_value_verbatim_witness:
  "ParseArgv_loop (ParseArgv_entry [''-o'', ''-v'', ''prog'']
       \<lparr>verbose = False, outputFileName = [], cmdLine = []\<rparr>)
     = ParseArgv_loop \<lparr>arguments = [[], ''-v'', ''prog''], argNo = 2,
         consumeNextPositionalArgument = False, posArg = ''-v'', result_verbose = False\<rparr> \<and>
   ParseArgv [''chronos'', ''-o'', ''-v'', ''prog'']
       \<lparr>verbose = False, outputFileName = [], cmdLine = []\<rparr>
     = Some (True, \<lparr>verbose = False, outputFileName = ''-v'', cmdLine = ''prog''\<rparr>, [])"
proof -
  have p: "\<not> starts_with ''prog'' ''-''"
    by (simp add: starts_with_def)
  have "''-v'' \<noteq> ''--''"
    by simp
  with output_value_verbatim [OF disjI1 [OF refl],
      of "ParseArgv_entry [''-o'', ''-v'', ''prog'']
            \<lparr>verbose = False, outputFileName = [], cmdLine = []\<rparr>"
         "''prog''" "''chronos''" "''-v''" "[]"] p
  show ?thesis
    by (simp add: ParseArgv_entry_def numeral_2_eq_2)
qed

section \<open>Lemmas on the run\<close>

lemma wmain_all_succeed:
  assumes "all_succeed os argv params exitCode createTime exitTime jobInfo"
  shows "wmain os argv =
    \<lparr>ending = Exit (sint exitCode),
     calls = [Call_CreateProcess_suspended (cmdLine params), Call_CreateJobObject,
              Call_AssignProcessToJobObject, Call_ResumeThread, Call_WaitForSingleObject,
              Call_GetExitCodeProcess, Call_GetProcessTimes, Call_QueryInformationJobObject,
              Call_CloseHandle_hProcess, Call_CloseHandle_hJob],
     errors = (if ActiveProcesses jobInfo \<noteq> 0 then
                 ''Warning: there are still '' @ decimal (unat (ActiveProcesses jobInfo)) @
                 '' alive children processes'' @ endl
               else []),
     stdout = (if outputFileName params \<noteq> [] then []
               else report params (time100Ns exitTime - time100Ns createTime)
                      (TotalUserTime jobInfo) (TotalKernelTime jobInfo)
                      (TotalPageFaultCount jobInfo) exitCode),
     outfile = (if outputFileName params \<noteq> [] \<and> open_file os (outputFileName params)
                then Some (outputFileName params,
                       report params (time100Ns exitTime - time100Ns createTime)
                         (TotalUserTime jobInfo) (TotalKernelTime jobInfo)
                         (TotalPageFaultCount jobInfo) exitCode)
                else None)\<rparr>"
  using assms by (auto simp add: all_succeed_def wmain_def Let_def)

lemma scripted_prog:
  "all_succeed (scripted exitCode active) [''chronos'', ''prog'']
     \<lparr>verbose = False, outputFileName = [], cmdLine = ''prog''\<rparr> exitCode
     \<lparr>dwLowDateTime = 0xFFFFFF00, dwHighDateTime = 0x01D1A2B3\<rparr>
     \<lparr>dwLowDateTime = 29999744, dwHighDateTime = 0x01D1A2B4\<rparr>
     \<lparr>TotalUserTime = 10000000, TotalKernelTime = 5000000, TotalPageFaultCount = 7,
      ActiveProcesses = active\<rparr>"
  by (simp add: all_succeed_def scripted_def initial_params_def ParseArgv_scan finish_def
      starts_with_def)

lemma scripted_wallclock:
  "time100Ns \<lparr>dwLowDateTime = 29999744, dwHighDateTime = 0x01D1A2B4\<rparr>
     - time100Ns \<lparr>dwLowDateTime = 0xFFFFFF00, dwHighDateTime = 0x01D1A2B3\<rparr> = 30000000"
  by (simp add: time100Ns_def)

lemma wmain_calls:
  "calls (wmain os argv) = [] \<or>
   (\<exists>c. calls (wmain os argv) = [Call_CreateProcess_suspended c]) \<or>
   (\<exists>c. calls (wmain os argv) = [Call_CreateProcess_suspended c, Call_CreateJobObject]) \<or>
   (\<exists>c. calls (wmain os argv) = [Call_CreateProcess_suspended c, Call_CreateJobObject,
      Call_AssignProcessToJobObject] \<and> \<not> AssignProcessToJobObject os) \<or>
   (\<exists>c rest. calls (wmain os argv) = [Call_CreateProcess_suspended c, Call_CreateJobObject,
      Call_AssignProcessToJobObject, Call_ResumeThread, Call_WaitForSingleObject] @ rest \<and>
      Call_ResumeThread \<notin> set rest \<and> AssignProcessToJobObject os)"
  by (simp add: wmain_def Let_def split: option.split prod.split)

text \<open>The three times of the example, as the stream writes them.\<close>

lemma seconds_3_00: "seconds 30000000 = ''3.00''"
proof -
  have a: "double_of_LONGLONG 30000000 = (30000000, 0)"
    by (simp add: double_of_LONGLONG_def round_binary64_def round_half_even_def bit_length.simps)
  have b: "double_mult timeUnit (30000000, 0) = (6755399441055744, - 51)"
    by (simp add: double_mult_def timeUnit_def round_binary64_def round_half_even_def
        bit_length.simps)
  have c: "hundredths (6755399441055744, - 51) = 300"
    by (simp add: hundredths_def round_half_even_def)
  show ?thesis
    by (simp add: seconds_def a b fixed2_def c decimal.simps digit_def)
qed

lemma seconds_1_00: "seconds 10000000 = ''1.00''"
proof -
  have a: "double_of_LONGLONG 10000000 = (10000000, 0)"
    by (simp add: double_of_LONGLONG_def round_binary64_def round_half_even_def bit_length.simps)
  have b: "double_mult timeUnit (10000000, 0) = (9007199254740992, - 53)"
    by (simp add: double_mult_def timeUnit_def round_binary64_def round_half_even_def
        bit_length.simps)
  have c: "hundredths (9007199254740992, - 53) = 100"
    by (simp add: hundredths_def round_half_even_def)
  show ?thesis
    by (simp add: seconds_def a b fixed2_def c decimal.simps digit_def)
qed

lemma seconds_0_50: "seconds 5000000 = ''0.50''"
proof -
  have a: "double_of_LONGLONG 5000000 = (5000000, 0)"
    by (simp add: double_of_LONGLONG_def round_binary64_def round_half_even_def bit_length.simps)
  have b: "double_mult timeUnit (5000000, 0) = (9007199254740992, - 54)"
    by (simp add: double_mult_def timeUnit_def round_binary64_def round_half_even_def
        bit_length.simps)
  have c: "hundredths (9007199254740992, - 54) = 50"
    by (simp add: hundredths_def round_half_even_def)
  show ?thesis
    by (simp add: seconds_def a b fixed2_def c decimal.simps digit_def)
qed

lemma decimal_digits: "decimal n \<noteq> [] \<and> set (decimal n) \<subseteq> set ''0123456789''"
proof (induction n rule: decimal.induct)
  case (1 n)
  have d: "digit k \<in> set ''0123456789''" for k
  proof -
    have "k mod 10 < length ''0123456789''" by simp
    then show ?thesis unfolding digit_def by (rule nth_mem)
  qed
  show ?case
  proof (cases "n < 10")
    case True
    then show ?thesis using d [of n] by (subst (1 2) decimal.simps) simp
  next
    case False
    then show ?thesis using 1 d [of "n mod 10"] by (subst (1 2) decimal.simps) simp
  qed
qed

lemma sint32:
  fixes w :: "32 word"
  shows "sint w = (if uint w < 2 ^ 31 then uint w else uint w - 2 ^ 32)"
proof -
  have r: "- (2 ^ 31) \<le> sint w" "sint w < 2 ^ 31"
    using sint_ge [of w] sint_lt [of w] by simp_all
  have u: "uint w = sint w mod 2 ^ 32"
    by (simp add: uint_sint take_bit_eq_mod)
  show ?thesis
  proof (cases "0 \<le> sint w")
    case True
    with r have "sint w mod 2 ^ 32 = sint w" by simp
    with u r show ?thesis by simp
  next
    case False
    with r have "(sint w + 2 ^ 32) mod 2 ^ 32 = sint w + 2 ^ 32"
      by (intro mod_pos_pos_trivial) simp_all
    then have "sint w mod 2 ^ 32 = sint w + 2 ^ 32" by simp
    with u r False show ?thesis by simp
  qed
qed

lemma word_of_sint: "word_of_int (sint w) = w"
  by (simp flip: scast_eq)

section \<open>The terse report\<close>

text \<open>
  Claim C1, as amended. In terse mode, when every step of the run succeeds, the text
  written to the chosen destination (standard output, or the output file when one is
  named and can be opened) is an empty line followed by exactly three lines:
  \<^verbatim>\<open>real\<close>, \<^verbatim>\<open>user\<close> and \<^verbatim>\<open>sys\<close>, each followed by a tab, the seconds and the letter
  \<^verbatim>\<open>s\<close>; every line, the last included, ends with a line feed. Each seconds value is
  written as an optional minus sign, decimal digits, a point and exactly two digits.
\<close>

theorem terse_report:
  assumes "all_succeed os argv params exitCode createTime exitTime jobInfo"
    and "\<not> verbose params"
  shows "(\<exists>text. text = endl @
             ''real'' @ tab @ seconds (time100Ns exitTime - time100Ns createTime) @ ''s'' @ endl @
             ''user'' @ tab @ seconds (TotalUserTime jobInfo) @ ''s'' @ endl @
             ''sys'' @ tab @ seconds (TotalKernelTime jobInfo) @ ''s'' @ endl \<and>
           stdout (wmain os argv) = (if outputFileName params = [] then text else []) \<and>
           outfile (wmain os argv) =
             (if outputFileName params \<noteq> [] \<and> open_file os (outputFileName params)
              then Some (outputFileName params, text) else None)) \<and>
         (\<exists>sign n a b. seconds t = sign @ decimal n @ ''.'' @ [digit a, digit b] \<and>
            (sign = [] \<or> sign = ''-'') \<and> decimal n \<noteq> [] \<and>
            set (decimal n) \<subseteq> set ''0123456789'')"
proof (rule conjI)
  show "\<exists>text. text = endl @
             ''real'' @ tab @ seconds (time100Ns exitTime - time100Ns createTime) @ ''s'' @ endl @
             ''user'' @ tab @ seconds (TotalUserTime jobInfo) @ ''s'' @ endl @
             ''sys'' @ tab @ seconds (TotalKernelTime jobInfo) @ ''s'' @ endl \<and>
           stdout (wmain os argv) = (if outputFileName params = [] then text else []) \<and>
           outfile (wmain os argv) =
             (if outputFileName params \<noteq> [] \<and> open_file os (outputFileName params)
              then Some (outputFileName params, text) else None)"
    using assms(2) by (simp add: wmain_all_succeed [OF assms(1)] report_def)
next
  let ?x = "double_mult timeUnit (double_of_LONGLONG t)"
  have "seconds t = (if fst ?x < 0 then ''-'' else []) @ decimal (hundredths ?x div 100) @ ''.'' @
      [digit (hundredths ?x mod 100 div 10), digit (hundredths ?x mod 10)]"
    by (simp only: seconds_def fixed2_def)
  moreover have "(if fst ?x < 0 then ''-'' else []) = [] \<or> (if fst ?x < 0 then ''-'' else []) = ''-''"
    by simp
  ultimately show "\<exists>sign n a b. seconds t = sign @ decimal n @ ''.'' @ [digit a, digit b] \<and>
            (sign = [] \<or> sign = ''-'') \<and> decimal n \<noteq> [] \<and>
            set (decimal n) \<subseteq> set ''0123456789''"
    using decimal_digits by blast
qed

text \<open>
  The theorem on the scripted platform: 3.00 s of wall-clock time, 1.00 s of user time
  and 0.50 s of kernel time, exit code 42.
\<close>

theorem terse_report_witness:
  "stdout (wmain (scripted 42 0) [''chronos'', ''prog'']) =
     endl @ ''real'' @ tab @ ''3.00s'' @ endl @ ''user'' @ tab @ ''1.00s'' @ endl @
     ''sys'' @ tab @ ''0.50s'' @ endl \<and>
   outfile (wmain (scripted 42 0) [''chronos'', ''prog'']) = None"
  using terse_report [OF scripted_prog [of 42 0], where t = 30000000]
  by (simp add: scripted_wallclock seconds_3_00 seconds_1_00 seconds_0_50)

text \<open>
  The claim as stated fails on the same run: the text is not the three lines alone, with
  or without a final line feed, because it begins with an empty line
  (\<^verbatim>\<open>out << std::endl\<close> at source line 260).
\<close>

theorem terse_report_counterexample:
  "stdout (wmain (scripted 42 0) [''chronos'', ''prog'']) \<noteq>
     ''real'' @ tab @ ''3.00s'' @ endl @ ''user'' @ tab @ ''1.00s'' @ endl @
     ''sys'' @ tab @ ''0.50s'' \<and>
   stdout (wmain (scripted 42 0) [''chronos'', ''prog'']) \<noteq>
     ''real'' @ tab @ ''3.00s'' @ endl @ ''user'' @ tab @ ''1.00s'' @ endl @
     ''sys'' @ tab @ ''0.50s'' @ endl \<and>
   take 1 (stdout (wmain (scripted 42 0) [''chronos'', ''prog''])) = endl"
  by (simp add: wmain_all_succeed [OF scripted_prog] report_def scripted_wallclock
      seconds_3_00 seconds_1_00 seconds_0_50 endl_def tab_def)

section \<open>The exit code of the tool\<close>

text \<open>
  Claim C2. When parsing fails, the tool writes what \<open>ParseArgv\<close> reported and then the
  usage text, which names the tool by \<^verbatim>\<open>argv[0]\<close>, to the error stream, launches nothing
  and exits with 1; \<^verbatim>\<open>-h\<close> and \<^verbatim>\<open>--help\<close> make parsing fail, with the usage text alone on
  the error stream. When the process cannot be launched, or the wait for it fails, the
  exit code is 127. When every step succeeds, the exit code is the exit code of the
  launched process: the \<^verbatim>\<open>int\<close> that \<open>wmain\<close> returns carries the same 32 bits.
\<close>

theorem exit_code:
  "\<exists>usage. usage =
       ''chronos - report wallclock, user and system times of process'' @ endl @
       ''Copyright (c) 2016, Grigory Rechistov'' @ endl @ endl @
       ''Usage: '' @ hd argv @ '' [-v] [-o file] [--] program [options]'' @ endl @ endl @
       ''Run program and report its resources usage'' @ endl @
       ''   --verbose, -v          produce results in verbose format'' @ endl @
       ''   --output, -o filename  write result to filename instead of stdout'' @ endl @
       ''   program                program name to start'' @ endl @
       ''   options                the program'' @ [CHR 0x27] @ ''s own arguments'' @ endl @ endl \<and>
     (ParseArgv argv initial_params = Some (False, params, err) \<longrightarrow>
        ending (wmain os argv) = Exit 1 \<and> errors (wmain os argv) = err @ usage \<and>
        calls (wmain os argv) = [] \<and> stdout (wmain os argv) = [] \<and>
        outfile (wmain os argv) = None) \<and>
     (argv = argv0 # ''-h'' # rest \<or> argv = argv0 # ''--help'' # rest \<longrightarrow>
        ending (wmain os argv) = Exit 1 \<and> errors (wmain os argv) = usage) \<and>
     (ParseArgv argv initial_params = Some (True, params, err) \<and>
        \<not> CreateProcess os (cmdLine params) \<longrightarrow> ending (wmain os argv) = Exit 127) \<and>
     (ParseArgv argv initial_params = Some (True, params, err) \<and>
        CreateProcess os (cmdLine params) \<and> CreateJobObject os \<and>
        AssignProcessToJobObject os \<and> \<not> WaitForSingleObject os \<longrightarrow>
        ending (wmain os argv) = Exit 127) \<and>
     (all_succeed os argv params exitCode createTime exitTime jobInfo \<longrightarrow>
        ending (wmain os argv) = Exit (sint exitCode) \<and>
        word_of_int (sint exitCode) = exitCode)"
proof (intro exI conjI impI)
  show "fst (UsageAndExit argv) =
       ''chronos - report wallclock, user and system times of process'' @ endl @
       ''Copyright (c) 2016, Grigory Rechistov'' @ endl @ endl @
       ''Usage: '' @ hd argv @ '' [-v] [-o file] [--] program [options]'' @ endl @ endl @
       ''Run program and report its resources usage'' @ endl @
       ''   --verbose, -v          produce results in verbose format'' @ endl @
       ''   --output, -o filename  write result to filename instead of stdout'' @ endl @
       ''   program                program name to start'' @ endl @
       ''   options                the program'' @ [CHR 0x27] @ ''s own arguments'' @ endl @ endl"
    by (simp add: UsageAndExit_def)
next
  assume "all_succeed os argv params exitCode createTime exitTime jobInfo"
  then show "ending (wmain os argv) = Exit (sint exitCode)"
    by (simp add: wmain_all_succeed)
next
  show "word_of_int (sint exitCode) = exitCode"
    by (rule word_of_sint)
next
  assume "argv = argv0 # ''-h'' # rest \<or> argv = argv0 # ''--help'' # rest"
  then show "ending (wmain os argv) = Exit 1"
    by (auto simp add: wmain_def ParseArgv_scan finish_def starts_with_def UsageAndExit_def)
next
  assume "argv = argv0 # ''-h'' # rest \<or> argv = argv0 # ''--help'' # rest"
  then show "errors (wmain os argv) = fst (UsageAndExit argv)"
    by (auto simp add: wmain_def ParseArgv_scan finish_def starts_with_def)
qed (simp_all add: wmain_def Let_def UsageAndExit_def)

text \<open>
  The theorem on the scripted platform: a run that succeeds with exit code 42, a launch
  that fails, a wait that fails, the unknown option \<^verbatim>\<open>-x\<close>, and \<^verbatim>\<open>-h\<close>.
\<close>

theorem exit_code_witness:
  "ending (wmain (scripted 42 0) [''chronos'', ''prog'']) = Exit 42 \<and>
   ending (wmain (scripted 42 0\<lparr>CreateProcess := (\<lambda>c. False)\<rparr>) [''chronos'', ''prog''])
     = Exit 127 \<and>
   ending (wmain (scripted 42 0\<lparr>WaitForSingleObject := False\<rparr>) [''chronos'', ''prog''])
     = Exit 127 \<and>
   ending (wmain (scripted 42 0) [''chronos'', ''-x'', ''prog'']) = Exit 1 \<and>
   errors (wmain (scripted 42 0) [''chronos'', ''-x'', ''prog''])
     = ''Unknown option -x'' @ endl @
       ''chronos - report wallclock, user and system times of process'' @ endl @
       ''Copyright (c) 2016, Grigory Rechistov'' @ endl @ endl @
       ''Usage: '' @ ''chronos'' @ '' [-v] [-o file] [--] program [options]'' @ endl @ endl @
       ''Run program and report its resources usage'' @ endl @
       ''   --verbose, -v          produce results in verbose format'' @ endl @
       ''   --output, -o filename  write result to filename instead of stdout'' @ endl @
       ''   program                program name to start'' @ endl @
       ''   options                the program'' @ [CHR 0x27] @ ''s own arguments'' @ endl @ endl \<and>
   calls (wmain (scripted 42 0) [''chronos'', ''-x'', ''prog'']) = [] \<and>
   ending (wmain (scripted 42 0) [''chronos'', ''-h'']) = Exit 1 \<and>
   errors (wmain (scripted 42 0) [''chronos'', ''-h''])
     = ''chronos - report wallclock, user and system times of process'' @ endl @
       ''Copyright (c) 2016, Grigory Rechistov'' @ endl @ endl @
       ''Usage: '' @ ''chronos'' @ '' [-v] [-o file] [--] program [options]'' @ endl @ endl @
       ''Run program and report its resources usage'' @ endl @
       ''   --verbose, -v          produce results in verbose format'' @ endl @
       ''   --output, -o filename  write result to filename instead of stdout'' @ endl @
       ''   program                program name to start'' @ endl @
       ''   options                the program'' @ [CHR 0x27] @ ''s own arguments'' @ endl @ endl"
proof -
  have p: "ParseArgv [''chronos'', ''prog''] initial_params
      = Some (True, \<lparr>verbose = False, outputFileName = [], cmdLine = ''prog''\<rparr>, [])"
    by (simp add: initial_params_def ParseArgv_scan finish_def starts_with_def)
  have x: "ParseArgv [''chronos'', ''-x'', ''prog''] initial_params
      = Some (False, initial_params, ''Unknown option -x'' @ endl)"
    by (simp add: initial_params_def ParseArgv_scan finish_def starts_with_def)
  from exit_code [of "[''chronos'', ''prog'']" _ _ "scripted 42 0" _ _ 42] scripted_prog [of 42 0]
  have 1: "ending (wmain (scripted 42 0) [''chronos'', ''prog'']) = Exit 42"
    by simp
  from exit_code [of "[''chronos'', ''prog'']" _ _
      "scripted 42 0\<lparr>CreateProcess := (\<lambda>c. False)\<rparr>"] p
  have 2: "ending (wmain (scripted 42 0\<lparr>CreateProcess := (\<lambda>c. False)\<rparr>) [''chronos'', ''prog''])
      = Exit 127"
    by simp
  from exit_code [of "[''chronos'', ''prog'']" _ _
      "scripted 42 0\<lparr>WaitForSingleObject := False\<rparr>"] p
  have 3: "ending (wmain (scripted 42 0\<lparr>WaitForSingleObject := False\<rparr>) [''chronos'', ''prog''])
      = Exit 127"
    by (simp add: scripted_def)
  from exit_code [of "[''chronos'', ''-x'', ''prog'']" _ _ "scripted 42 0"] x
  have 4: "ending (wmain (scripted 42 0) [''chronos'', ''-x'', ''prog'']) = Exit 1"
    "errors (wmain (scripted 42 0) [''chronos'', ''-x'', ''prog''])
       = ''Unknown option -x'' @ endl @
         ''chronos - report wallclock, user and system times of process'' @ endl @
         ''Copyright (c) 2016, Grigory Rechistov'' @ endl @ endl @
         ''Usage: '' @ ''chronos'' @ '' [-v] [-o file] [--] program [options]'' @ endl @ endl @
         ''Run program and report its resources usage'' @ endl @
         ''   --verbose, -v          produce results in verbose format'' @ endl @
         ''   --output, -o filename  write result to filename instead of stdout'' @ endl @
         ''   program                program name to start'' @ endl @
         ''   options                the program'' @ [CHR 0x27] @ ''s own arguments'' @ endl @ endl"
    "calls (wmain (scripted 42 0) [''chronos'', ''-x'', ''prog'']) = []"
    by simp_all
  from exit_code [of "[''chronos'', ''-h'']" _ _ "scripted 42 0" "''chronos''" "[]"]
  have 5: "ending (wmain (scripted 42 0) [''chronos'', ''-h'']) = Exit 1"
    "errors (wmain (scripted 42 0) [''chronos'', ''-h''])
       = ''chronos - report wallclock, user and system times of process'' @ endl @
       ''Copyright (c) 2016, Grigory Rechistov'' @ endl @ endl @
       ''Usage: '' @ ''chronos'' @ '' [-v] [-o file] [--] program [options]'' @ endl @ endl @
       ''Run program and report its resources usage'' @ endl @
       ''   --verbose, -v          produce results in verbose format'' @ endl @
       ''   --output, -o filename  write result to filename instead of stdout'' @ endl @
       ''   program                program name to start'' @ endl @
       ''   options                the program'' @ [CHR 0x27] @ ''s own arguments'' @ endl @ endl"
    by simp_all
  from 1 2 3 4 5 show ?thesis by simp
qed

section \<open>Failures of the platform\<close>

text \<open>
  Claim C3, as amended. No fatal failure of the platform leaves a report behind, neither
  in part nor in full. A launch that fails and a wait that fails write a description of
  the platform's last error to the error stream and end the tool with exit code 127. A
  failure to create the job object, to attach the process to it, or to obtain the exit
  code, the time stamps or the accounting of the job object is caught by an \<^verbatim>\<open>assert\<close>:
  the run is aborted there, the program writes no error description and does not exit
  with 127, and after a failure to create the job object or to attach the process the
  process is never resumed.
\<close>

theorem supervisor_failures:
  assumes "ParseArgv argv initial_params = Some (True, params, err)"
  shows "(\<not> CreateProcess os (cmdLine params) \<longrightarrow>
            ending (wmain os argv) = Exit 127 \<and>
            errors (wmain os argv)
              = ''Unable to start the process: '' @ GetLastErrorDescription os @ endl \<and>
            stdout (wmain os argv) = [] \<and> outfile (wmain os argv) = None) \<and>
         (CreateProcess os (cmdLine params) \<and> \<not> CreateJobObject os \<longrightarrow>
            ending (wmain os argv) = AssertionFailed ''hJob != NULL'' 195 \<and>
            errors (wmain os argv) = [] \<and>
            stdout (wmain os argv) = [] \<and> outfile (wmain os argv) = None \<and>
            Call_ResumeThread \<notin> set (calls (wmain os argv))) \<and>
         (CreateProcess os (cmdLine params) \<and> CreateJobObject os \<and>
            \<not> AssignProcessToJobObject os \<longrightarrow>
            ending (wmain os argv) = AssertionFailed ''ret'' 197 \<and>
            errors (wmain os argv) = [] \<and>
            stdout (wmain os argv) = [] \<and> outfile (wmain os argv) = None \<and>
            Call_ResumeThread \<notin> set (calls (wmain os argv))) \<and>
         (CreateProcess os (cmdLine params) \<and> CreateJobObject os \<and>
            AssignProcessToJobObject os \<and> \<not> WaitForSingleObject os \<longrightarrow>
            ending (wmain os argv) = Exit 127 \<and>
            errors (wmain os argv)
              = ''Failed waiting for process termination: '' @ GetLastErrorDescription os @ endl \<and>
            stdout (wmain os argv) = [] \<and> outfile (wmain os argv) = None) \<and>
         (CreateProcess os (cmdLine params) \<and> CreateJobObject os \<and>
            AssignProcessToJobObject os \<and> WaitForSingleObject os \<and>
            (GetExitCodeProcess os = None \<or> GetProcessTimes os = None \<or>
             QueryInformationJobObject os = None) \<longrightarrow>
            (\<exists>line. ending (wmain os argv) = AssertionFailed ''ret'' line) \<and>
            errors (wmain os argv) = [] \<and>
            stdout (wmain os argv) = [] \<and> outfile (wmain os argv) = None)"
  using assms by (auto simp add: wmain_def Let_def split: option.split)

text \<open>
  The theorem on the scripted platform, with each of these in turn: the time stamps
  unavailable, a launch that fails, a wait that fails, a job object that cannot be
  created, and a process that cannot be attached.
\<close>

theorem supervisor_failures_witness:
  "ending (wmain (scripted 42 0\<lparr>GetProcessTimes := None\<rparr>) [''chronos'', ''prog''])
     = AssertionFailed ''ret'' 217 \<and>
   errors (wmain (scripted 42 0\<lparr>GetProcessTimes := None\<rparr>) [''chronos'', ''prog'']) = [] \<and>
   stdout (wmain (scripted 42 0\<lparr>GetProcessTimes := None\<rparr>) [''chronos'', ''prog'']) = [] \<and>
   outfile (wmain (scripted 42 0\<lparr>GetProcessTimes := None\<rparr>) [''chronos'', ''prog'']) = None \<and>
   ending (wmain (scripted 42 0\<lparr>CreateProcess := (\<lambda>c. False)\<rparr>) [''chronos'', ''prog''])
     = Exit 127 \<and>
   errors (wmain (scripted 42 0\<lparr>CreateProcess := (\<lambda>c. False)\<rparr>) [''chronos'', ''prog''])
     = ''Unable to start the process: Access is denied.'' @ endl \<and>
   stdout (wmain (scripted 42 0\<lparr>CreateProcess := (\<lambda>c. False)\<rparr>) [''chronos'', ''prog'']) = [] \<and>
   ending (wmain (scripted 42 0\<lparr>WaitForSingleObject := False\<rparr>) [''chronos'', ''prog''])
     = Exit 127 \<and>
   errors (wmain (scripted 42 0\<lparr>WaitForSingleObject := False\<rparr>) [''chronos'', ''prog''])
     = ''Failed waiting for process termination: Access is denied.'' @ endl \<and>
   stdout (wmain (scripted 42 0\<lparr>WaitForSingleObject := False\<rparr>) [''chronos'', ''prog'']) = [] \<and>
   ending (wmain (scripted 42 0\<lparr>CreateJobObject := False\<rparr>) [''chronos'', ''prog''])
     = AssertionFailed ''hJob != NULL'' 195 \<and>
   errors (wmain (scripted 42 0\<lparr>CreateJobObject := False\<rparr>) [''chronos'', ''prog'']) = [] \<and>
   stdout (wmain (scripted 42 0\<lparr>CreateJobObject := False\<rparr>) [''chronos'', ''prog'']) = [] \<and>
   ending (wmain (scripted 42 0\<lparr>AssignProcessToJobObject := False\<rparr>) [''chronos'', ''prog''])
     = AssertionFailed ''ret'' 197 \<and>
   errors (wmain (scripted 42 0\<lparr>AssignProcessToJobObject := False\<rparr>) [''chronos'', ''prog'']) = [] \<and>
   stdout (wmain (scripted 42 0\<lparr>AssignProcessToJobObject := False\<rparr>) [''chronos'', ''prog'']) = []"
proof -
  have p: "ParseArgv [''chronos'', ''prog''] initial_params
      = Some (True, \<lparr>verbose = False, outputFileName = [], cmdLine = ''prog''\<rparr>, [])"
    by (simp add: initial_params_def ParseArgv_scan finish_def starts_with_def)
  have l: "ending (wmain (scripted 42 0\<lparr>GetProcessTimes := None\<rparr>) [''chronos'', ''prog''])
      = AssertionFailed ''ret'' 217"
    by (simp add: wmain_def p scripted_def)
  from supervisor_failures [OF p, of "scripted 42 0\<lparr>GetProcessTimes := None\<rparr>"]
    supervisor_failures [OF p, of "scripted 42 0\<lparr>CreateProcess := (\<lambda>c. False)\<rparr>"]
    supervisor_failures [OF p, of "scripted 42 0\<lparr>WaitForSingleObject := False\<rparr>"]
    supervisor_failures [OF p, of "scripted 42 0\<lparr>CreateJobObject := False\<rparr>"]
    supervisor_failures [OF p, of "scripted 42 0\<lparr>AssignProcessToJobObject := False\<rparr>"] l
  show ?thesis
    by (simp add: scripted_def GetLastErrorDescription_def)
qed

text \<open>
  The claim as stated fails when the exit code, the time stamps or the accounting cannot
  be obtained, and likewise when the job object cannot be created or the process cannot
  be attached: the run ends in a failed assertion, not with exit code 127, and the
  description of the last error (\<^verbatim>\<open>Access is denied.\<close> here) is not written.
\<close>

theorem supervisor_failures_counterexample:
  "ending (wmain (scripted 42 0\<lparr>GetExitCodeProcess := None\<rparr>) [''chronos'', ''prog''])
     = AssertionFailed ''ret'' 211 \<and>
   errors (wmain (scripted 42 0\<lparr>GetExitCodeProcess := None\<rparr>) [''chronos'', ''prog'']) = [] \<and>
   ending (wmain (scripted 42 0\<lparr>GetProcessTimes := None\<rparr>) [''chronos'', ''prog''])
     = AssertionFailed ''ret'' 217 \<and>
   errors (wmain (scripted 42 0\<lparr>GetProcessTimes := None\<rparr>) [''chronos'', ''prog'']) = [] \<and>
   ending (wmain (scripted 42 0\<lparr>QueryInformationJobObject := None\<rparr>) [''chronos'', ''prog''])
     = AssertionFailed ''ret'' 227 \<and>
   errors (wmain (scripted 42 0\<lparr>QueryInformationJobObject := None\<rparr>) [''chronos'', ''prog'']) = [] \<and>
   ending (wmain (scripted 42 0\<lparr>CreateJobObject := False\<rparr>) [''chronos'', ''prog''])
     = AssertionFailed ''hJob != NULL'' 195 \<and>
   errors (wmain (scripted 42 0\<lparr>CreateJobObject := False\<rparr>) [''chronos'', ''prog'']) = [] \<and>
   ending (wmain (scripted 42 0\<lparr>AssignProcessToJobObject := False\<rparr>) [''chronos'', ''prog''])
     = AssertionFailed ''ret'' 197 \<and>
   errors (wmain (scripted 42 0\<lparr>AssignProcessToJobObject := False\<rparr>) [''chronos'', ''prog'']) = [] \<and>
   GetLastErrorDescription (scripted 42 0\<lparr>GetExitCodeProcess := None\<rparr>) = ''Access is denied.''"
proof -
  have p: "ParseArgv [''chronos'', ''prog''] initial_params
      = Some (True, \<lparr>verbose = False, outputFileName = [], cmdLine = ''prog''\<rparr>, [])"
    by (simp add: initial_params_def ParseArgv_scan finish_def starts_with_def)
  show ?thesis
    by (simp add: wmain_def p scripted_def GetLastErrorDescription_def)
qed

section \<open>Attach before resume\<close>

text \<open>
  Claim C7. The process is created suspended. Wherever \<^verbatim>\<open>ResumeThread\<close> occurs among the
  calls of a run, \<^verbatim>\<open>AssignProcessToJobObject\<close> has been called before it and has succeeded,
  and no earlier \<^verbatim>\<open>ResumeThread\<close> precedes it.
\<close>

theorem attach_before_resume:
  assumes "calls (wmain os argv) = before @ Call_ResumeThread # after"
  shows "Call_AssignProcessToJobObject \<in> set before \<and> Call_ResumeThread \<notin> set before \<and>
         AssignProcessToJobObject os"
proof -
  have n: "[] \<noteq> before @ Call_ResumeThread # after"
    by simp
  from wmain_calls [of os argv] assms n show ?thesis
    by (elim disjE exE conjE)
      (auto simp add: Cons_eq_append_conv append_eq_Cons_conv append_eq_append_conv2)
qed

text \<open>The theorem on the scripted platform.\<close>

theorem attach_before_resume_witness:
  "calls (wmain (scripted 42 0) [''chronos'', ''prog''])
     = [Call_CreateProcess_suspended ''prog'', Call_CreateJobObject,
        Call_AssignProcessToJobObject] @
       Call_ResumeThread #
       [Call_WaitForSingleObject, Call_GetExitCodeProcess, Call_GetProcessTimes,
        Call_QueryInformationJobObject, Call_CloseHandle_hProcess, Call_CloseHandle_hJob] \<and>
   Call_AssignProcessToJobObject
     \<in> set [Call_CreateProcess_suspended ''prog'', Call_CreateJobObject,
            Call_AssignProcessToJobObject] \<and>
   AssignProcessToJobObject (scripted 42 0)"
proof -
  have c: "calls (wmain (scripted 42 0) [''chronos'', ''prog''])
     = [Call_CreateProcess_suspended ''prog'', Call_CreateJobObject,
        Call_AssignProcessToJobObject] @
       Call_ResumeThread #
       [Call_WaitForSingleObject, Call_GetExitCodeProcess, Call_GetProcessTimes,
        Call_QueryInformationJobObject, Call_CloseHandle_hProcess, Call_CloseHandle_hJob]"
    by (simp add: wmain_all_succeed [OF scripted_prog])
  from attach_before_resume [OF c] c show ?thesis
    by simp
qed

section \<open>Processes still alive\<close>

lemma scripted_verbose:
  "all_succeed (scripted exitCode active) [''chronos'', ''-v'', ''-oout.txt'', ''prog'', ''arg'']
     \<lparr>verbose = True, outputFileName = ''out.txt'', cmdLine = ''prog arg''\<rparr> exitCode
     \<lparr>dwLowDateTime = 0xFFFFFF00, dwHighDateTime = 0x01D1A2B3\<rparr>
     \<lparr>dwLowDateTime = 29999744, dwHighDateTime = 0x01D1A2B4\<rparr>
     \<lparr>TotalUserTime = 10000000, TotalKernelTime = 5000000, TotalPageFaultCount = 7,
      ActiveProcesses = active\<rparr>"
  by (simp add: all_succeed_def scripted_def initial_params_def ParseArgv_scan finish_def
      starts_with_def)

text \<open>
  Claim C8. When every step succeeds and the job object reports a non-zero number of
  active processes, the tool writes a warning with that number to the error stream and
  nothing else; its exit code is still that of the launched process; and the report is
  still written in full, to standard output or to the output file: the empty line and
  then the three lines of the terse form, or the six lines of the verbose form with the
  command line, the three times, the page faults and the exit status. It is the text
  that the same run writes when no process is left.
\<close>

theorem survivors_warning:
  assumes "all_succeed os argv params exitCode createTime exitTime jobInfo"
    and "ActiveProcesses jobInfo \<noteq> 0"
  shows "\<exists>text. text = endl @
           (if verbose params then
              ''Command being timed: '' @ [CHR 0x22] @ cmdLine params @ [CHR 0x22] @ endl @
              ''Elapsed (wall clock) time (seconds): '' @
                seconds (time100Ns exitTime - time100Ns createTime) @ endl @
              ''User time (seconds): '' @ seconds (TotalUserTime jobInfo) @ endl @
              ''System time (seconds): '' @ seconds (TotalKernelTime jobInfo) @ endl @
              ''Page faults: '' @ decimal (unat (TotalPageFaultCount jobInfo)) @ endl @
              ''Exit status: '' @ decimal (unat exitCode) @ endl
            else
              ''real'' @ tab @ seconds (time100Ns exitTime - time100Ns createTime) @ ''s'' @ endl @
              ''user'' @ tab @ seconds (TotalUserTime jobInfo) @ ''s'' @ endl @
              ''sys'' @ tab @ seconds (TotalKernelTime jobInfo) @ ''s'' @ endl) \<and>
         errors (wmain os argv)
           = ''Warning: there are still '' @ decimal (unat (ActiveProcesses jobInfo)) @
             '' alive children processes'' @ endl \<and>
         ending (wmain os argv) = Exit (sint exitCode) \<and>
         stdout (wmain os argv) = (if outputFileName params \<noteq> [] then [] else text) \<and>
         outfile (wmain os argv)
           = (if outputFileName params \<noteq> [] \<and> open_file os (outputFileName params)
              then Some (outputFileName params, text) else None) \<and>
         stdout (wmain os argv)
           = stdout (wmain (os\<lparr>QueryInformationJobObject :=
                                 Some (jobInfo\<lparr>ActiveProcesses := 0\<rparr>)\<rparr>) argv) \<and>
         outfile (wmain os argv)
           = outfile (wmain (os\<lparr>QueryInformationJobObject :=
                                  Some (jobInfo\<lparr>ActiveProcesses := 0\<rparr>)\<rparr>) argv) \<and>
         errors (wmain (os\<lparr>QueryInformationJobObject :=
                             Some (jobInfo\<lparr>ActiveProcesses := 0\<rparr>)\<rparr>) argv) = []"
proof -
  from assms(1)
  have z: "all_succeed (os\<lparr>QueryInformationJobObject := Some (jobInfo\<lparr>ActiveProcesses := 0\<rparr>)\<rparr>)
      argv params exitCode createTime exitTime (jobInfo\<lparr>ActiveProcesses := 0\<rparr>)"
    by (simp add: all_succeed_def)
  show ?thesis
    using assms(2)
    by (simp add: wmain_all_succeed [OF assms(1)] wmain_all_succeed [OF z] report_def)
qed

text \<open>
  The theorem on the scripted platform with two processes still alive: the terse report
  on standard output, and the verbose report of
  \<^verbatim>\<open>chronos -v -oout.txt prog arg\<close> in the file \<^verbatim>\<open>out.txt\<close>.
\<close>

theorem survivors_warning_witness:
  "errors (wmain (scripted 42 2) [''chronos'', ''prog''])
     = ''Warning: there are still 2 alive children processes'' @ endl \<and>
   ending (wmain (scripted 42 2) [''chronos'', ''prog'']) = Exit 42 \<and>
   stdout (wmain (scripted 42 2) [''chronos'', ''prog''])
     = endl @ ''real'' @ tab @ ''3.00s'' @ endl @ ''user'' @ tab @ ''1.00s'' @ endl @
       ''sys'' @ tab @ ''0.50s'' @ endl \<and>
   outfile (wmain (scripted 42 2) [''chronos'', ''prog'']) = None \<and>
   errors (wmain (scripted 42 2) [''chronos'', ''-v'', ''-oout.txt'', ''prog'', ''arg''])
     = ''Warning: there are still 2 alive children processes'' @ endl \<and>
   ending (wmain (scripted 42 2) [''chronos'', ''-v'', ''-oout.txt'', ''prog'', ''arg''])
     = Exit 42 \<and>
   stdout (wmain (scripted 42 2) [''chronos'', ''-v'', ''-oout.txt'', ''prog'', ''arg'']) = [] \<and>
   outfile (wmain (scripted 42 2) [''chronos'', ''-v'', ''-oout.txt'', ''prog'', ''arg''])
     = Some (''out.txt'',
         endl @
         ''Command being timed: '' @ [CHR 0x22] @ ''prog arg'' @ [CHR 0x22] @ endl @
         ''Elapsed (wall clock) time (seconds): 3.00'' @ endl @
         ''User time (seconds): 1.00'' @ endl @
         ''System time (seconds): 0.50'' @ endl @
         ''Page faults: 7'' @ endl @
         ''Exit status: 42'' @ endl)"
proof -
  have o: "open_file (scripted 42 2) ''out.txt''"
    by (simp add: scripted_def)
  from survivors_warning [OF scripted_prog [of 42 2]]
  have 1: "errors (wmain (scripted 42 2) [''chronos'', ''prog''])
       = ''Warning: there are still 2 alive children processes'' @ endl \<and>
     ending (wmain (scripted 42 2) [''chronos'', ''prog'']) = Exit 42 \<and>
     stdout (wmain (scripted 42 2) [''chronos'', ''prog''])
       = endl @ ''real'' @ tab @ ''3.00s'' @ endl @ ''user'' @ tab @ ''1.00s'' @ endl @
         ''sys'' @ tab @ ''0.50s'' @ endl \<and>
     outfile (wmain (scripted 42 2) [''chronos'', ''prog'']) = None"
    by (simp add: decimal.simps digit_def scripted_wallclock
        seconds_3_00 seconds_1_00 seconds_0_50)
  from survivors_warning [OF scripted_verbose [of 42 2]] o
  have 2: "errors (wmain (scripted 42 2) [''chronos'', ''-v'', ''-oout.txt'', ''prog'', ''arg''])
       = ''Warning: there are still 2 alive children processes'' @ endl \<and>
     ending (wmain (scripted 42 2) [''chronos'', ''-v'', ''-oout.txt'', ''prog'', ''arg''])
       = Exit 42 \<and>
     stdout (wmain (scripted 42 2) [''chronos'', ''-v'', ''-oout.txt'', ''prog'', ''arg'']) = [] \<and>
     outfile (wmain (scripted 42 2) [''chronos'', ''-v'', ''-oout.txt'', ''prog'', ''arg''])
       = Some (''out.txt'',
           endl @
           ''Command being timed: '' @ [CHR 0x22] @ ''prog arg'' @ [CHR 0x22] @ endl @
           ''Elapsed (wall clock) time (seconds): 3.00'' @ endl @
           ''User time (seconds): 1.00'' @ endl @
           ''System time (seconds): 0.50'' @ endl @
           ''Page faults: 7'' @ endl @
           ''Exit status: 42'' @ endl)"
    by (simp add: decimal.simps digit_def scripted_wallclock
        seconds_3_00 seconds_1_00 seconds_0_50)
  from 1 2 show ?thesis by simp
qed

section \<open>The exit code as a signed integer\<close>

text \<open>
  Claim C10. The value that \<open>wmain\<close> returns is the 32-bit exit code of the launched
  process read as a signed integer: an exit code of \<open>2\<^sup>3\<^sup>1\<close> or more comes back as that
  number less \<open>2\<^sup>3\<^sup>2\<close>, which is negative, and a smaller one as itself.
\<close>

theorem exit_code_signed:
  assumes "all_succeed os argv params exitCode createTime exitTime jobInfo"
  shows "ending (wmain os argv) = Exit (sint exitCode) \<and>
         (2 ^ 31 \<le> uint exitCode \<longrightarrow>
            sint exitCode = uint exitCode - 2 ^ 32 \<and> sint exitCode < 0) \<and>
         (uint exitCode < 2 ^ 31 \<longrightarrow> sint exitCode = uint exitCode)"
proof -
  have "uint exitCode < 2 ^ 32"
    using uint_bounded [of exitCode] by simp
  then show ?thesis
    by (simp add: wmain_all_succeed [OF assms] sint32)
qed

text \<open>The theorem at the exit code \<^verbatim>\<open>0xC0000005\<close> of an access violation, and at 42.\<close>

theorem exit_code_signed_witness:
  "ending (wmain (scripted 0xC0000005 0) [''chronos'', ''prog'']) = Exit (- 1073741819) \<and>
   ending (wmain (scripted 42 0) [''chronos'', ''prog'']) = Exit 42"
  using exit_code_signed [OF scripted_prog [of "0xC0000005" 0]]
    exit_code_signed [OF scripted_prog [of 42 0]]
  by simp

end
